theory Spec2Isabelle
  imports Complex_Main
begin

section \<open>Conventions of the embedding\<close>

text \<open>
  The three engines of the arena economy are embedded one after the other:
  the blood economy (\<^verbatim>\<open>rustchain_blood_economy.py\<close>), the style rank system
  (\<^verbatim>\<open>rustchain_style_system.py\<close>) and the 51% attack mode
  (\<^verbatim>\<open>rustchain_51_attack.py\<close>).

  \<^item> Python \<^verbatim>\<open>float\<close> and \<^verbatim>\<open>Decimal\<close> values are modelled as \<^typ>\<open>real\<close>, and
    comparisons, \<^verbatim>\<open>min\<close>, \<^verbatim>\<open>max\<close> and the branch structure are kept. In the blood
    economy and in the scoring of a kill the arithmetic on them is taken exact. Where a
    rounded result is truncated or decides what a theorem states (the product that
    \<^verbatim>\<open>decay\<close> truncates, and the arithmetic of the 51% attack mode), the rounding
    operation is a parameter of the model, so that the theorems hold for whatever the
    machine computes.
  \<^item> Python \<^verbatim>\<open>int\<close> is \<^typ>\<open>int\<close>.
  \<^item> Every \<^verbatim>\<open>time.time()\<close> read is the explicit argument \<open>now\<close> of the operation.
  \<^item> A \<^verbatim>\<open>dict\<close> is an association list in insertion order; a \<^verbatim>\<open>set\<close> of strings
    is a duplicate-free list.
  \<^item> Mutation of an object held in a dictionary is a read, an update of the record
    and a write back under the same key.
  \<^item> Field names carry a short prefix where two classes of the source share a name.
\<close>

subsection \<open>Dictionaries and sets\<close>

fun dict_set :: "('k \<times> 'v) list \<Rightarrow> 'k \<Rightarrow> 'v \<Rightarrow> ('k \<times> 'v) list" where
  "dict_set [] k v = [(k, v)]"
| "dict_set ((k', v') # kvs) k v =
     (if k' = k then (k, v) # kvs else (k', v') # dict_set kvs k v)"

definition set_add :: "'a \<Rightarrow> 'a list \<Rightarrow> 'a list" where
  "set_add x xs = (if x \<in> set xs then xs else xs @ [x])"

definition set_discard :: "'a \<Rightarrow> 'a list \<Rightarrow> 'a list" where
  "set_discard x xs = removeAll x xs"

subsection \<open>Exceptions\<close>

text \<open>The exceptions the modelled code can raise: a missing dictionary key, and
  \<^verbatim>\<open>int\<close> applied to an infinity or to \<^verbatim>\<open>nan\<close>.\<close>

datatype py_error = KeyError | OverflowError | ValueError

section \<open>Blood economy\<close>

subsection \<open>Configuration\<close>

definition SHIELD_MAX :: real where "SHIELD_MAX = 100"
definition SHIELD_DECAY_RATE :: real where "SHIELD_DECAY_RATE = 2"
definition SHIELD_DECAY_DELAY :: real where "SHIELD_DECAY_DELAY = 5"
definition DAMAGE_TO_SHIELD_RATIO :: real where "DAMAGE_TO_SHIELD_RATIO = 15 / 100"
definition CLOSE_RANGE_MULTIPLIER :: real where "CLOSE_RANGE_MULTIPLIER = 3"
definition MELEE_KILL_SHIELD :: real where "MELEE_KILL_SHIELD = 50"
definition HEADSHOT_BONUS :: real where "HEADSHOT_BONUS = 25"
definition KILL_SHIELD_BONUS :: real where "KILL_SHIELD_BONUS = 20"
definition CLOSE_RANGE :: real where "CLOSE_RANGE = 300"
definition MID_RANGE :: real where "MID_RANGE = 800"
definition LONG_RANGE :: real where "LONG_RANGE = 1500"

datatype DamageType =
  MELEE | SHOTGUN | MACHINEGUN | ROCKET | GRENADE | ELECTRO | CRYLINK | VORTEX | HAGAR
  | DEVASTATOR | MORTAR

text \<open>\<^verbatim>\<open>WEAPON_RANGE_BONUS.get(weapon, 1.0)\<close>: every member of the enumeration has an
  entry, so the default is never taken for a \<^typ>\<open>DamageType\<close>.\<close>

fun WEAPON_RANGE_BONUS :: "DamageType \<Rightarrow> real" where
  "WEAPON_RANGE_BONUS MELEE = 4"
| "WEAPON_RANGE_BONUS SHOTGUN = 25 / 10"
| "WEAPON_RANGE_BONUS MACHINEGUN = 1"
| "WEAPON_RANGE_BONUS ROCKET = 15 / 10"
| "WEAPON_RANGE_BONUS GRENADE = 12 / 10"
| "WEAPON_RANGE_BONUS ELECTRO = 13 / 10"
| "WEAPON_RANGE_BONUS CRYLINK = 1"
| "WEAPON_RANGE_BONUS VORTEX = 5 / 10"
| "WEAPON_RANGE_BONUS HAGAR = 11 / 10"
| "WEAPON_RANGE_BONUS DEVASTATOR = 14 / 10"
| "WEAPON_RANGE_BONUS MORTAR = 11 / 10"

subsection \<open>State\<close>

record hit =
  hit_time :: real
  hit_damage :: real
  hit_weapon :: DamageType
  hit_distance :: real

record BloodState =
  shield :: real
  last_damage_dealt :: real
  last_damage_taken :: real
  last_action_time :: real
  damage_dealt_total :: real
  shield_gained_total :: real
  decay_total :: real
  recent_hits :: "hit list"
  in_combat :: bool
  combat_start :: real
  kills_without_damage :: int

text \<open>\<^verbatim>\<open>BloodState()\<close>: the default of \<^verbatim>\<open>last_action_time\<close> is the clock at creation.\<close>

definition new_BloodState :: "real \<Rightarrow> BloodState" where
  "new_BloodState now =
     \<lparr> shield = 0, last_damage_dealt = 0, last_damage_taken = 0, last_action_time = now,
       damage_dealt_total = 0, shield_gained_total = 0, decay_total = 0, recent_hits = [],
       in_combat = False, combat_start = 0, kills_without_damage = 0 \<rparr>"

definition is_decaying :: "BloodState \<Rightarrow> real \<Rightarrow> bool" where
  "is_decaying st now \<longleftrightarrow> now - last_action_time st > SHIELD_DECAY_DELAY"

text \<open>\<^verbatim>\<open>deque(maxlen=10).append\<close>: the oldest entry is dropped once ten are held.\<close>

definition deque_append :: "'a list \<Rightarrow> 'a \<Rightarrow> 'a list" where
  "deque_append xs x = (let ys = xs @ [x] in drop (length ys - 10) ys)"

record BloodEconomy =
  be_players :: "(string \<times> BloodState) list"
  be_last_update :: real
  total_shield_generated :: real
  total_shield_decayed :: real
  most_aggressive :: "string option"
  most_aggressive_shield :: real

definition BloodEconomy_init :: "real \<Rightarrow> BloodEconomy" where
  "BloodEconomy_init now =
     \<lparr> be_players = [], be_last_update = now, total_shield_generated = 0,
       total_shield_decayed = 0, most_aggressive = None, most_aggressive_shield = 0 \<rparr>"

text \<open>\<^verbatim>\<open>get_player\<close>: the state of a player is created on first reference.\<close>

definition get_player :: "real \<Rightarrow> BloodEconomy \<Rightarrow> string \<Rightarrow> BloodState \<times> BloodEconomy" where
  "get_player now e name =
     (case map_of (be_players e) name of
        Some st \<Rightarrow> (st, e)
      | None \<Rightarrow> (new_BloodState now,
                 e\<lparr>be_players := dict_set (be_players e) name (new_BloodState now)\<rparr>))"

definition put_player :: "BloodEconomy \<Rightarrow> string \<Rightarrow> BloodState \<Rightarrow> BloodEconomy" where
  "put_player e name st = e\<lparr>be_players := dict_set (be_players e) name st\<rparr>"

subsection \<open>Damage dealt\<close>

datatype hit_bonus =
  BLOOD_RAGE | BUCKSHOT_BAPTISM | PRECISION | INTIMATE | SNIPER_REDUCED | RAPID_FIRE nat

definition get_bonuses ::
  "real \<Rightarrow> BloodState \<Rightarrow> DamageType \<Rightarrow> real \<Rightarrow> bool \<Rightarrow> hit_bonus list" where
  "get_bonuses now st weapon distance headshot =
     (let b1 = (if weapon = MELEE then [BLOOD_RAGE]
                else if weapon = SHOTGUN \<and> distance \<le> CLOSE_RANGE then [BUCKSHOT_BAPTISM]
                else []);
          b2 = (if headshot then [PRECISION] else []);
          b3 = (if distance \<le> CLOSE_RANGE then [INTIMATE]
                else if distance \<ge> LONG_RANGE then [SNIPER_REDUCED]
                else []);
          recent = filter (\<lambda>h. now - hit_time h < 2) (recent_hits st);
          b4 = (if length recent \<ge> 3 then [RAPID_FIRE (length recent)] else [])
      in b1 @ b2 @ b3 @ b4)"

definition distance_mult :: "real \<Rightarrow> real" where
  "distance_mult distance =
     (if distance \<le> CLOSE_RANGE then CLOSE_RANGE_MULTIPLIER
      else if distance \<le> MID_RANGE then
        (let t = (distance - CLOSE_RANGE) / (MID_RANGE - CLOSE_RANGE)
         in CLOSE_RANGE_MULTIPLIER - (CLOSE_RANGE_MULTIPLIER - 1) * t)
      else
        (let t = min 1 ((distance - MID_RANGE) / (LONG_RANGE - MID_RANGE))
         in 1 - (5 / 10) * t))"

record damage_report =
  dr_attacker :: string
  dr_shield_gained :: real
  dr_shield_current :: real
  dr_distance_mult :: real
  dr_weapon_mult :: real
  dr_headshot :: bool
  dr_bonuses :: "hit_bonus list"

definition on_damage_dealt ::
  "real \<Rightarrow> BloodEconomy \<Rightarrow> string \<Rightarrow> string \<Rightarrow> real \<Rightarrow> DamageType \<Rightarrow> real \<Rightarrow> bool
     \<Rightarrow> damage_report \<times> BloodEconomy" where
  "on_damage_dealt now e attacker victim damage weapon distance headshot =
     (let (state, e1) = get_player now e attacker;
          base_shield = damage * DAMAGE_TO_SHIELD_RATIO;
          dmult = distance_mult distance;
          weapon_mult = WEAPON_RANGE_BONUS weapon;
          shield_gain0 = base_shield * dmult * weapon_mult;
          shield_gain = (if headshot then shield_gain0 + HEADSHOT_BONUS else shield_gain0);
          old_shield = shield state;
          new_shield = min SHIELD_MAX (shield state + shield_gain);
          actual_gain = new_shield - old_shield;
          state' = state\<lparr> shield := new_shield,
                          last_damage_dealt := damage,
                          last_action_time := now,
                          damage_dealt_total := damage_dealt_total state + damage,
                          shield_gained_total := shield_gained_total state + actual_gain,
                          in_combat := True,
                          combat_start := now,
                          recent_hits := deque_append (recent_hits state)
                            \<lparr> hit_time = now, hit_damage = damage, hit_weapon = weapon,
                              hit_distance = distance \<rparr> \<rparr>;
          e2 = (put_player e1 attacker state')
                 \<lparr>total_shield_generated := total_shield_generated e1 + actual_gain\<rparr>;
          e3 = (if shield_gained_total state' > most_aggressive_shield e2
                then e2\<lparr> most_aggressive := Some attacker,
                         most_aggressive_shield := shield_gained_total state' \<rparr>
                else e2)
      in (\<lparr> dr_attacker = attacker, dr_shield_gained = actual_gain,
            dr_shield_current = new_shield, dr_distance_mult = dmult,
            dr_weapon_mult = weapon_mult, dr_headshot = headshot,
            dr_bonuses = get_bonuses now state' weapon distance headshot \<rparr>, e3))"

subsection \<open>Kill, damage taken, death\<close>

datatype kill_bonus = EXECUTION | POINT_BLANK | UNTOUCHABLE int

record kill_report =
  kr_killer :: string
  kr_victim :: string
  kr_shield_gained :: real
  kr_shield_current :: real
  kr_bonuses :: "kill_bonus list"
  kr_total_bonus :: real

definition on_kill ::
  "real \<Rightarrow> BloodEconomy \<Rightarrow> string \<Rightarrow> string \<Rightarrow> DamageType \<Rightarrow> real
     \<Rightarrow> kill_report \<times> BloodEconomy" where
  "on_kill now e killer victim weapon distance =
     (let (state, e1) = get_player now e killer;
          (g1, b1) = (if weapon = MELEE
                      then (KILL_SHIELD_BONUS + MELEE_KILL_SHIELD, [EXECUTION])
                      else (KILL_SHIELD_BONUS, []));
          (g2, b2) = (if distance \<le> CLOSE_RANGE then (g1 + 15, b1 @ [POINT_BLANK])
                      else (g1, b1));
          (shield_gain, bonuses) =
             (if kills_without_damage state \<ge> 3
              then (g2 + 10 * real_of_int (kills_without_damage state),
                    b2 @ [UNTOUCHABLE (kills_without_damage state)])
              else (g2, b2));
          old_shield = shield state;
          new_shield = min SHIELD_MAX (shield state + shield_gain);
          actual_gain = new_shield - old_shield;
          state' = state\<lparr> kills_without_damage := kills_without_damage state + 1,
                          shield := new_shield,
                          last_action_time := now,
                          shield_gained_total := shield_gained_total state + actual_gain \<rparr>;
          e2 = (put_player e1 killer state')
                 \<lparr>total_shield_generated := total_shield_generated e1 + actual_gain\<rparr>
      in (\<lparr> kr_killer = killer, kr_victim = victim, kr_shield_gained = actual_gain,
            kr_shield_current = new_shield, kr_bonuses = bonuses,
            kr_total_bonus = shield_gain \<rparr>, e2))"

record taken_report =
  tr_player :: string
  tr_damage :: real
  tr_shield_current :: real
  untouchable_lost :: bool

text \<open>\<^verbatim>\<open>on_damage_taken\<close>: the streak is reset first; \<^verbatim>\<open>untouchable_lost\<close> is then
  computed from the streak as it is after the reset.\<close>

definition on_damage_taken ::
  "real \<Rightarrow> BloodEconomy \<Rightarrow> string \<Rightarrow> real \<Rightarrow> string \<Rightarrow> taken_report \<times> BloodEconomy" where
  "on_damage_taken now e player damage attacker =
     (let (state, e1) = get_player now e player;
          state1 = state\<lparr>last_damage_taken := damage\<rparr>;
          state2 = state1\<lparr>kills_without_damage := 0\<rparr>
      in (\<lparr> tr_player = player, tr_damage = damage, tr_shield_current = shield state2,
            untouchable_lost = (if kills_without_damage state2 > 0 then True else False) \<rparr>,
          put_player e1 player state2))"

record death_report =
  de_player :: string
  de_shield_lost :: real

definition on_death :: "real \<Rightarrow> BloodEconomy \<Rightarrow> string \<Rightarrow> death_report \<times> BloodEconomy" where
  "on_death now e player =
     (let (state, e1) = get_player now e player;
          lost_shield = shield state;
          state' = state\<lparr> shield := 0, kills_without_damage := 0, in_combat := False,
                          recent_hits := [] \<rparr>
      in (\<lparr> de_player = player, de_shield_lost = lost_shield \<rparr>,
          put_player e1 player state'))"

subsection \<open>Idle decay\<close>

text \<open>The body of the loop of \<^verbatim>\<open>update\<close> for one player: the new state and the
  entry of \<^verbatim>\<open>decayed\<close>, if one is written.\<close>

definition update_player :: "real \<Rightarrow> real \<Rightarrow> BloodState \<Rightarrow> BloodState \<times> real option" where
  "update_player now dt st =
     (let (st1, dec) =
            (if shield st > 0 \<and> is_decaying st now then
               (let decay = SHIELD_DECAY_RATE * dt;
                    old_shield = shield st;
                    st' = st\<lparr>shield := max 0 (shield st - decay)\<rparr>;
                    actual_decay = old_shield - shield st'
                in if actual_decay > 0
                   then (st'\<lparr>decay_total := decay_total st' + actual_decay\<rparr>,
                         Some actual_decay)
                   else (st', None))
             else (st, None));
          st2 = (if in_combat st1 \<and> now - last_action_time st1 > 3
                 then st1\<lparr>in_combat := False\<rparr> else st1)
      in (st2, dec))"

fun update_loop ::
  "real \<Rightarrow> real \<Rightarrow> (string \<times> BloodState) list
     \<Rightarrow> (string \<times> BloodState) list \<times> (string \<times> real) list" where
  "update_loop now dt [] = ([], [])"
| "update_loop now dt ((name, st) # rest) =
     (let (st', dec) = update_player now dt st;
          (rest', decayed) = update_loop now dt rest
      in ((name, st') # rest',
          (case dec of None \<Rightarrow> decayed | Some a \<Rightarrow> (name, a) # decayed)))"

text \<open>\<^verbatim>\<open>update(dt=None)\<close>: without an explicit \<open>dt\<close> the time since the last update
  is used.\<close>

definition update ::
  "real \<Rightarrow> real option \<Rightarrow> BloodEconomy \<Rightarrow> (string \<times> real) list \<times> BloodEconomy" where
  "update now dt_opt e =
     (let dt = (case dt_opt of None \<Rightarrow> now - be_last_update e | Some d \<Rightarrow> d);
          (players', decayed) = update_loop now dt (be_players e)
      in (decayed,
          e\<lparr> be_last_update := now, be_players := players',
             total_shield_decayed := total_shield_decayed e + sum_list (map snd decayed) \<rparr>))"

subsection \<open>Event sequences\<close>

datatype blood_op =
  DamageDealt real string string real DamageType real bool
| Kill real string string DamageType real
| DamageTaken real string real string
| Death real string
| Update real "real option"

fun blood_step :: "BloodEconomy \<Rightarrow> blood_op \<Rightarrow> BloodEconomy" where
  "blood_step e (DamageDealt now a v dmg w ds hs) = snd (on_damage_dealt now e a v dmg w ds hs)"
| "blood_step e (Kill now k v w ds) = snd (on_kill now e k v w ds)"
| "blood_step e (DamageTaken now p dmg a) = snd (on_damage_taken now e p dmg a)"
| "blood_step e (Death now p) = snd (on_death now e p)"
| "blood_step e (Update now dt) = snd (update now dt e)"

fun blood_run :: "BloodEconomy \<Rightarrow> blood_op list \<Rightarrow> BloodEconomy" where
  "blood_run e [] = e"
| "blood_run e (x # xs) = blood_run (blood_step e x) xs"

text \<open>An event is in range when its damage amount is not negative and, for a tick, the
  elapsed time it applies is not negative.\<close>

fun op_in_range :: "BloodEconomy \<Rightarrow> blood_op \<Rightarrow> bool" where
  "op_in_range e (DamageDealt now a v dmg w ds hs) = (0 \<le> dmg)"
| "op_in_range e (Update now None) = (be_last_update e \<le> now)"
| "op_in_range e (Update now (Some dt)) = (0 \<le> dt)"
| "op_in_range e _ = True"

fun ops_in_range :: "BloodEconomy \<Rightarrow> blood_op list \<Rightarrow> bool" where
  "ops_in_range e [] = True"
| "ops_in_range e (x # xs) = (op_in_range e x \<and> ops_in_range (blood_step e x) xs)"

definition shield_of :: "BloodEconomy \<Rightarrow> string \<Rightarrow> real option" where
  "shield_of e name = map_option shield (map_of (be_players e) name)"

section \<open>Style rank system\<close>

subsection \<open>Ranks\<close>

datatype StyleRank =
  D_DORMANT | C_CALCULATING | B_BUILDING | A_ATTACKING | S_STAKING | SS_SLASHING | SSS_SATOSHI

text \<open>The value of a member of the \<^verbatim>\<open>IntEnum\<close>; ranks are compared through it.\<close>

fun rank_value :: "StyleRank \<Rightarrow> int" where
  "rank_value D_DORMANT = 0"
| "rank_value C_CALCULATING = 1"
| "rank_value B_BUILDING = 2"
| "rank_value A_ATTACKING = 3"
| "rank_value S_STAKING = 4"
| "rank_value SS_SLASHING = 5"
| "rank_value SSS_SATOSHI = 6"

text \<open>The entries of \<^verbatim>\<open>RANK_CONFIG\<close> the engine reads.\<close>

fun RANK_threshold :: "StyleRank \<Rightarrow> int" where
  "RANK_threshold D_DORMANT = 0"
| "RANK_threshold C_CALCULATING = 100"
| "RANK_threshold B_BUILDING = 300"
| "RANK_threshold A_ATTACKING = 600"
| "RANK_threshold S_STAKING = 1000"
| "RANK_threshold SS_SLASHING = 1500"
| "RANK_threshold SSS_SATOSHI = 2500"

fun RANK_multiplier :: "StyleRank \<Rightarrow> real" where
  "RANK_multiplier D_DORMANT = 1"
| "RANK_multiplier C_CALCULATING = 12 / 10"
| "RANK_multiplier B_BUILDING = 15 / 10"
| "RANK_multiplier A_ATTACKING = 2"
| "RANK_multiplier S_STAKING = 3"
| "RANK_multiplier SS_SLASHING = 4"
| "RANK_multiplier SSS_SATOSHI = 5"

fun RANK_decay_rate :: "StyleRank \<Rightarrow> int" where
  "RANK_decay_rate D_DORMANT = 0"
| "RANK_decay_rate C_CALCULATING = 10"
| "RANK_decay_rate B_BUILDING = 15"
| "RANK_decay_rate A_ATTACKING = 25"
| "RANK_decay_rate S_STAKING = 40"
| "RANK_decay_rate SS_SLASHING = 60"
| "RANK_decay_rate SSS_SATOSHI = 100"

text \<open>\<^verbatim>\<open>reversed(list(StyleRank))\<close>\<close>

definition ranks_reversed :: "StyleRank list" where
  "ranks_reversed =
     [SSS_SATOSHI, SS_SLASHING, S_STAKING, A_ATTACKING, B_BUILDING, C_CALCULATING, D_DORMANT]"

text \<open>The scan shared by \<^verbatim>\<open>add_points\<close>, \<^verbatim>\<open>decay\<close> and \<^verbatim>\<open>on_death\<close>: the first rank
  of the list whose threshold the points reach; \<open>None\<close> when the loop ends without
  \<^verbatim>\<open>break\<close>.\<close>

fun scan_ranks :: "StyleRank list \<Rightarrow> int \<Rightarrow> StyleRank option" where
  "scan_ranks [] pts = None"
| "scan_ranks (r # rs) pts = (if pts \<ge> RANK_threshold r then Some r else scan_ranks rs pts)"

text \<open>All three callers fall back to \<^verbatim>\<open>D_DORMANT\<close> (the initial value of
  \<^verbatim>\<open>new_rank\<close>, or the \<^verbatim>\<open>else\<close> of the loop).\<close>

definition rank_for_points :: "int \<Rightarrow> StyleRank" where
  "rank_for_points pts = (case scan_ranks ranks_reversed pts of Some r \<Rightarrow> r | None \<Rightarrow> D_DORMANT)"

subsection \<open>Combos and bonuses\<close>

datatype combo = DOUBLE_KILL | TRIPLE_KILL | ULTRA_KILL | GODLIKE

fun combo_kills :: "combo \<Rightarrow> int" where
  "combo_kills DOUBLE_KILL = 2"
| "combo_kills TRIPLE_KILL = 3"
| "combo_kills ULTRA_KILL = 4"
| "combo_kills GODLIKE = 5"

fun combo_window :: "combo \<Rightarrow> real" where
  "combo_window DOUBLE_KILL = 3"
| "combo_window TRIPLE_KILL = 4"
| "combo_window ULTRA_KILL = 5"
| "combo_window GODLIKE = 6"

fun combo_bonus :: "combo \<Rightarrow> int" where
  "combo_bonus DOUBLE_KILL = 50"
| "combo_bonus TRIPLE_KILL = 150"
| "combo_bonus ULTRA_KILL = 300"
| "combo_bonus GODLIKE = 500"

text \<open>\<^verbatim>\<open>COMBOS.items()\<close> in the order of the dictionary, and
  \<^verbatim>\<open>sorted(COMBOS.items(), key=lambda x: -x[1]["kills"])\<close>.\<close>

definition COMBOS :: "combo list" where
  "COMBOS = [DOUBLE_KILL, TRIPLE_KILL, ULTRA_KILL, GODLIKE]"

definition combos_sorted :: "combo list" where
  "combos_sorted = sort_key (\<lambda>c. - combo_kills c) COMBOS"

fun find_combo :: "real \<Rightarrow> real list \<Rightarrow> combo list \<Rightarrow> combo option" where
  "find_combo now recent_kills [] = None"
| "find_combo now recent_kills (c # cs) =
     (if int (length (filter (\<lambda>t. now - t < combo_window c) recent_kills)) \<ge> combo_kills c
      then Some c else find_combo now recent_kills cs)"

datatype streak_name = KILLING_SPREE | RAMPAGE | DOMINATING | UNSTOPPABLE | GODLIKE_STREAK

text \<open>The dictionary \<^verbatim>\<open>streak_bonuses\<close> of \<^verbatim>\<open>process_kill\<close>: name, points and currency
  for the streak values that have an entry.\<close>

definition streak_bonuses :: "int \<Rightarrow> (streak_name \<times> int \<times> real) option" where
  "streak_bonuses k =
     (if k = 5 then Some (KILLING_SPREE, 100, 5 / 1000)
      else if k = 10 then Some (RAMPAGE, 250, 1 / 100)
      else if k = 15 then Some (DOMINATING, 400, 15 / 1000)
      else if k = 20 then Some (UNSTOPPABLE, 600, 2 / 100)
      else if k = 25 then Some (GODLIKE_STREAK, 1000, 25 / 1000)
      else None)"

datatype style_bonus =
  FIRST_BLOOD | REVENGE | BOSS_SLAIN_BORIS | BOSS_SLAIN_SOPHIA | VARIETY int
  | STREAK streak_name int

definition WEAPON_VARIETY_BONUS :: int where "WEAPON_VARIETY_BONUS = 25"

text \<open>Python's \<^verbatim>\<open>sub in s\<close> on strings: \<open>sub\<close> occurs as a contiguous part of \<open>s\<close>.\<close>

fun starts_with :: "string \<Rightarrow> string \<Rightarrow> bool" where
  "starts_with s [] = True"
| "starts_with [] (c # cs) = False"
| "starts_with (x # xs) (c # cs) = (x = c \<and> starts_with xs cs)"

fun str_contains :: "string \<Rightarrow> string \<Rightarrow> bool" where
  "str_contains [] sub = (sub = [])"
| "str_contains (x # xs) sub = (starts_with (x # xs) sub \<or> str_contains xs sub)"

subsection \<open>Player state\<close>

record PlayerStyle =
  ps_name :: string
  points :: int
  rank :: StyleRank
  kills_this_life :: int
  total_kills :: int
  deaths :: int
  last_kill_time :: real
  recent_kills :: "real list"
  weapons_used :: "string list"
  last_killer :: string
  total_rtc :: real
  killstreak :: int
  best_streak :: int

definition new_PlayerStyle :: "string \<Rightarrow> PlayerStyle" where
  "new_PlayerStyle n =
     \<lparr> ps_name = n, points = 0, rank = D_DORMANT, kills_this_life = 0, total_kills = 0,
       deaths = 0, last_kill_time = 0, recent_kills = [], weapons_used = [],
       last_killer = [], total_rtc = 0, killstreak = 0, best_streak = 0 \<rparr>"

text \<open>\<^verbatim>\<open>PlayerStyle.add_points\<close>: the new state, the new rank and \<^verbatim>\<open>ranked_up\<close>.\<close>

definition add_points :: "PlayerStyle \<Rightarrow> int \<Rightarrow> PlayerStyle \<times> StyleRank \<times> bool" where
  "add_points p pts =
     (let old_rank = rank p;
          p1 = p\<lparr>points := points p + pts\<rparr>;
          new_rank = rank_for_points (points p1);
          p2 = p1\<lparr>rank := new_rank\<rparr>
      in (p2, new_rank, rank_value new_rank > rank_value old_rank))"

text \<open>A float that is about to be truncated: a finite number, an infinity or \<^verbatim>\<open>nan\<close>.\<close>

datatype pyfloat = Finite real | PosInf | NegInf | NaN

text \<open>Truncation towards zero.\<close>

definition py_trunc :: "real \<Rightarrow> int" where
  "py_trunc x = (if 0 \<le> x then \<lfloor>x\<rfloor> else \<lceil>x\<rceil>)"

text \<open>Python's \<^verbatim>\<open>int(x)\<close> on a float: truncation towards zero of a finite float,
  \<^verbatim>\<open>OverflowError\<close> on an infinity, \<^verbatim>\<open>ValueError\<close> on \<^verbatim>\<open>nan\<close>.\<close>

fun py_int :: "pyfloat \<Rightarrow> py_error + int" where
  "py_int (Finite x) = Inr (py_trunc x)"
| "py_int PosInf = Inl OverflowError"
| "py_int NegInf = Inl OverflowError"
| "py_int NaN = Inl ValueError"

text \<open>The product \<^verbatim>\<open>decay_rate * delta_time\<close> of an \<^verbatim>\<open>int\<close> and a \<^verbatim>\<open>float\<close> is a float
  product: the machine rounds it, so it need not be the exact product (for the float
  nearest to 0.3, ten times it is the float 3.0, which is more than the exact product),
  and it can overflow. The truncation that follows makes the difference visible, so the
  product is a parameter of \<^verbatim>\<open>decay\<close>: a function from the rate and the elapsed time
  to the float the machine computes.\<close>

type_synonym float_mul = "int \<Rightarrow> pyfloat \<Rightarrow> pyfloat"

text \<open>The product where the exact product of the two is a float, as for the rate 10
  and a quarter of a second; with the infinities and \<^verbatim>\<open>nan\<close> as the machine treats
  them.\<close>

fun exact_mul :: float_mul where
  "exact_mul r (Finite x) = Finite (real_of_int r * x)"
| "exact_mul r PosInf = (if r > 0 then PosInf else if r < 0 then NegInf else NaN)"
| "exact_mul r NegInf = (if r > 0 then NegInf else if r < 0 then PosInf else NaN)"
| "exact_mul r NaN = NaN"

text \<open>\<^verbatim>\<open>PlayerStyle.decay\<close>. When \<^verbatim>\<open>int\<close> raises, nothing has been assigned yet.\<close>

definition decay :: "float_mul \<Rightarrow> PlayerStyle \<Rightarrow> pyfloat \<Rightarrow> py_error + PlayerStyle" where
  "decay fmul p delta_time =
     (if rank p = D_DORMANT then Inr p
      else
        (let decay_rate = RANK_decay_rate (rank p)
         in case py_int (fmul decay_rate delta_time) of
              Inl e \<Rightarrow> Inl e
            | Inr n \<Rightarrow>
                (let p1 = p\<lparr>points := max 0 (points p - n)\<rparr>
                 in Inr (p1\<lparr>rank := rank_for_points (points p1)\<rparr>))))"

definition style_on_death :: "PlayerStyle \<Rightarrow> PlayerStyle" where
  "style_on_death p =
     (let p1 = p\<lparr> points := points p div 2, kills_this_life := 0, killstreak := 0,
                  weapons_used := [], recent_kills := [] \<rparr>
      in p1\<lparr>rank := rank_for_points (points p1)\<rparr>)"

definition get_multiplier :: "PlayerStyle \<Rightarrow> real" where
  "get_multiplier p = RANK_multiplier (rank p)"

subsection \<open>The system\<close>

text \<open>The reward database (\<^verbatim>\<open>init_db\<close>, \<^verbatim>\<open>save_reward\<close>) is an external store that
  the engine only writes to; it is not part of the state.\<close>

record StyleSystem =
  ss_players :: "(string \<times> PlayerStyle) list"
  first_blood_claimed :: bool
  match_start_time :: real
  ss_last_update :: real

definition StyleSystem_init :: "real \<Rightarrow> StyleSystem" where
  "StyleSystem_init now =
     \<lparr> ss_players = [], first_blood_claimed = False, match_start_time = now,
       ss_last_update = now \<rparr>"

definition style_get_player :: "StyleSystem \<Rightarrow> string \<Rightarrow> PlayerStyle \<times> StyleSystem" where
  "style_get_player s n =
     (case map_of (ss_players s) n of
        Some p \<Rightarrow> (p, s)
      | None \<Rightarrow> (new_PlayerStyle n, s\<lparr>ss_players := dict_set (ss_players s) n (new_PlayerStyle n)\<rparr>))"

definition style_put_player :: "StyleSystem \<Rightarrow> string \<Rightarrow> PlayerStyle \<Rightarrow> StyleSystem" where
  "style_put_player s n p = s\<lparr>ss_players := dict_set (ss_players s) n p\<rparr>"

record kill_result =
  kl_killer :: string
  kl_victim :: string
  kl_weapon :: string
  base_rtc :: real
  bonus_rtc :: real
  style_points :: int
  bonuses :: "style_bonus list"
  kl_combo :: "combo option"
  rank_before :: StyleRank
  rank_after :: StyleRank
  ranked_up :: bool
  multiplier :: real
  kl_total_rtc :: real

subsection \<open>Processing a kill\<close>

text \<open>The first part of \<^verbatim>\<open>process_kill\<close>, from the tracking of the kill time to the
  killstreak bonuses, works on the killer's record and on the entries
  \<^verbatim>\<open>style_points\<close>, \<^verbatim>\<open>bonus_rtc\<close>, \<^verbatim>\<open>bonuses\<close> and \<^verbatim>\<open>combo\<close> of the result. It is
  written as one step for each block of the source, in the order of the source, on an
  accumulator holding these five.\<close>

record kill_acc =
  acc_points :: int
  acc_rtc :: real
  acc_bonuses :: "style_bonus list"
  acc_combo :: "combo option"
  acc_player :: PlayerStyle

text \<open>Track kill timing; the best streak follows the streak.\<close>

definition track_kill :: "real \<Rightarrow> PlayerStyle \<Rightarrow> PlayerStyle" where
  "track_kill now player0 =
     (let p1 = player0\<lparr> recent_kills := filter (\<lambda>t. now - t < 10) (recent_kills player0 @ [now]),
                         last_kill_time := now,
                         kills_this_life := kills_this_life player0 + 1,
                         total_kills := total_kills player0 + 1,
                         killstreak := killstreak player0 + 1 \<rparr>
      in if killstreak p1 > best_streak p1 then p1\<lparr>best_streak := killstreak p1\<rparr> else p1)"

text \<open>First blood; the flag itself is set by the caller.\<close>

definition first_blood :: "bool \<Rightarrow> kill_acc \<Rightarrow> kill_acc" where
  "first_blood claimed a =
     (if \<not> claimed
      then a\<lparr> acc_points := acc_points a + 200, acc_rtc := acc_rtc a + 5 / 1000,
              acc_bonuses := acc_bonuses a @ [FIRST_BLOOD] \<rparr>
      else a)"

definition revenge :: "string \<Rightarrow> kill_acc \<Rightarrow> kill_acc" where
  "revenge victim a =
     (if last_killer (acc_player a) = victim
      then a\<lparr> acc_points := acc_points a + 75, acc_rtc := acc_rtc a + 1 / 1000,
              acc_bonuses := acc_bonuses a @ [REVENGE],
              acc_player := (acc_player a)\<lparr>last_killer := []\<rparr> \<rparr>
      else a)"

definition boss_kill :: "string \<Rightarrow> kill_acc \<Rightarrow> kill_acc" where
  "boss_kill victim a =
     (if str_contains victim ''Boris''
      then a\<lparr> acc_points := acc_points a + 150, acc_rtc := acc_rtc a + 3 / 1000,
              acc_bonuses := acc_bonuses a @ [BOSS_SLAIN_BORIS] \<rparr>
      else if str_contains victim ''Sophia''
      then a\<lparr> acc_points := acc_points a + 150, acc_rtc := acc_rtc a + 3 / 1000,
              acc_bonuses := acc_bonuses a @ [BOSS_SLAIN_SOPHIA] \<rparr>
      else a)"

definition weapon_variety :: "string \<Rightarrow> kill_acc \<Rightarrow> kill_acc" where
  "weapon_variety weapon a =
     (if weapon \<notin> set (weapons_used (acc_player a)) then
        (let p' = (acc_player a)\<lparr>weapons_used := weapons_used (acc_player a) @ [weapon]\<rparr>;
             n = int (length (weapons_used p'));
             a' = a\<lparr>acc_player := p'\<rparr>
         in if n > 1
            then a'\<lparr> acc_points := acc_points a' + WEAPON_VARIETY_BONUS * n,
                     acc_bonuses := acc_bonuses a' @ [VARIETY n] \<rparr>
            else a')
      else a)"

definition combo_detection :: "real \<Rightarrow> kill_acc \<Rightarrow> kill_acc" where
  "combo_detection now a =
     (case find_combo now (recent_kills (acc_player a)) combos_sorted of
        Some c \<Rightarrow> a\<lparr> acc_combo := Some c, acc_points := acc_points a + combo_bonus c,
                      acc_rtc := acc_rtc a + (1 / 1000) * real_of_int (combo_kills c) \<rparr>
      | None \<Rightarrow> a)"

definition killstreak_bonus :: "kill_acc \<Rightarrow> kill_acc" where
  "killstreak_bonus a =
     (case streak_bonuses (killstreak (acc_player a)) of
        Some (nm, pts, rtc) \<Rightarrow>
          a\<lparr> acc_points := acc_points a + pts, acc_rtc := acc_rtc a + rtc,
             acc_bonuses := acc_bonuses a @ [STREAK nm (killstreak (acc_player a))] \<rparr>
      | None \<Rightarrow> a)"

text \<open>The result starts with 100 style points, no bonus currency, no bonus and no
  combo.\<close>

definition score_kill :: "real \<Rightarrow> bool \<Rightarrow> PlayerStyle \<Rightarrow> string \<Rightarrow> string \<Rightarrow> kill_acc" where
  "score_kill now claimed player0 victim weapon =
     killstreak_bonus
       (combo_detection now
          (weapon_variety weapon
             (boss_kill victim
                (revenge victim
                   (first_blood claimed
                      \<lparr> acc_points = 100, acc_rtc = 0, acc_bonuses = [], acc_combo = None,
                        acc_player = track_kill now player0 \<rparr>)))))"

text \<open>\<^verbatim>\<open>process_kill\<close>. The killer's record is written back before the victim's is
  read, so that with \<open>killer = victim\<close> the death reset works on the record the kill has
  just updated, as it does on the one shared object of the source.\<close>

definition process_kill ::
  "real \<Rightarrow> StyleSystem \<Rightarrow> string \<Rightarrow> string \<Rightarrow> string \<Rightarrow> kill_result \<times> StyleSystem" where
  "process_kill now s killer victim weapon =
     (let (player0, s1) = style_get_player s killer;
          (victim0, s2) = style_get_player s1 victim;
          a = score_kill now (first_blood_claimed s2) player0 victim weapon;
          s3 = (if \<not> first_blood_claimed s2 then s2\<lparr>first_blood_claimed := True\<rparr> else s2);
          (p5, new_rank, up) = add_points (acc_player a) (acc_points a);
          mult = get_multiplier p5;
          base = 1 / 1000 + acc_rtc a;
          total = base * mult;
          p6 = p5\<lparr>total_rtc := total_rtc p5 + total\<rparr>;
          s4 = style_put_player s3 killer p6;
          v0 = fst (style_get_player s4 victim);
          v1 = v0\<lparr>last_killer := killer\<rparr>;
          v2 = style_on_death v1;
          v3 = v2\<lparr>deaths := deaths v2 + 1\<rparr>;
          s5 = style_put_player s4 victim v3
      in (\<lparr> kl_killer = killer, kl_victim = victim, kl_weapon = weapon,
            base_rtc = 1 / 1000, bonus_rtc = acc_rtc a, style_points = acc_points a,
            bonuses = acc_bonuses a, kl_combo = acc_combo a, rank_before = rank player0,
            rank_after = new_rank, ranked_up = up, multiplier = mult,
            kl_total_rtc = total \<rparr>, s5))"

text \<open>The loop of \<^verbatim>\<open>StyleSystem.update\<close> over the players: the players after the
  loop, and the exception that ended it, if one did; the players before the one that
  raised have decayed, that one and the ones after it have not.\<close>

fun decay_all ::
  "float_mul \<Rightarrow> pyfloat \<Rightarrow> (string \<times> PlayerStyle) list
     \<Rightarrow> (string \<times> PlayerStyle) list \<times> py_error option" where
  "decay_all fmul delta [] = ([], None)"
| "decay_all fmul delta ((n, p) # rest) =
     (case decay fmul p delta of
        Inl e \<Rightarrow> ((n, p) # rest, Some e)
      | Inr p' \<Rightarrow>
          (let (rest', err) = decay_all fmul delta rest in ((n, p') # rest', err)))"

text \<open>\<^verbatim>\<open>StyleSystem.update\<close>: every player decays by the time since the last update,
  the difference of two clock readings, which is finite. The rounding of the
  difference is part of what the parameter of the product computes from it.\<close>

definition style_update ::
  "float_mul \<Rightarrow> real \<Rightarrow> StyleSystem \<Rightarrow> py_error option \<times> StyleSystem" where
  "style_update fmul now s =
     (let delta = now - ss_last_update s;
          (ps, err) = decay_all fmul (Finite delta) (ss_players s)
      in (err, s\<lparr>ss_last_update := now, ss_players := ps\<rparr>))"

definition style_reset_match :: "real \<Rightarrow> StyleSystem \<Rightarrow> StyleSystem" where
  "style_reset_match now s = s\<lparr>first_blood_claimed := False, match_start_time := now\<rparr>"

text \<open>The dispatch of a parsed kill line in \<^verbatim>\<open>main\<close>: \<open>killer\<close> and \<open>victim\<close> are the
  two stripped groups of the matching pattern; \<^verbatim>\<open>process_kill\<close> is called only under
  the guard \<^verbatim>\<open>killer and victim and killer != victim\<close>.\<close>

definition dispatch_kill ::
  "real \<Rightarrow> StyleSystem \<Rightarrow> string \<Rightarrow> string \<Rightarrow> string \<Rightarrow> kill_result option \<times> StyleSystem" where
  "dispatch_kill now s killer victim weapon =
     (if killer \<noteq> [] \<and> victim \<noteq> [] \<and> killer \<noteq> victim
      then (let (r, s') = process_kill now s killer victim weapon in (Some r, s'))
      else (None, s))"

datatype style_op = ProcessKill real string string string | StyleUpdate real | ResetMatch real

text \<open>The state after an operation, also when the operation raised.\<close>

fun style_step :: "float_mul \<Rightarrow> StyleSystem \<Rightarrow> style_op \<Rightarrow> StyleSystem" where
  "style_step fmul s (ProcessKill now k v w) = snd (process_kill now s k v w)"
| "style_step fmul s (StyleUpdate now) = snd (style_update fmul now s)"
| "style_step fmul s (ResetMatch now) = style_reset_match now s"

fun style_run :: "float_mul \<Rightarrow> StyleSystem \<Rightarrow> style_op list \<Rightarrow> StyleSystem" where
  "style_run fmul s [] = s"
| "style_run fmul s (x # xs) = style_run fmul (style_step fmul s x) xs"

text \<open>\<open>r\<close> is the highest configured rank whose threshold is at most \<open>pts\<close>.\<close>

definition highest_rank_within :: "StyleRank \<Rightarrow> int \<Rightarrow> bool" where
  "highest_rank_within r pts \<longleftrightarrow>
     RANK_threshold r \<le> pts \<and>
     list_all (\<lambda>r'. RANK_threshold r' \<le> pts \<longrightarrow> rank_value r' \<le> rank_value r) ranks_reversed"

section \<open>51% attack mode\<close>

subsection \<open>Arithmetic\<close>

text \<open>The mode computes with floats (times, capture progress, control percentages) and
  with \<^verbatim>\<open>Decimal\<close> values (mined currency). Both round: a float operation to the nearest
  float, a \<^verbatim>\<open>Decimal\<close> operation to the precision of the context. The operations are
  therefore parameters of the model, collected in one record: the four float operations,
  the three \<^verbatim>\<open>Decimal\<close> operations the mode uses, \<^verbatim>\<open>Decimal(str(x))\<close> of a float and
  \<^verbatim>\<open>float(d)\<close> of a \<^verbatim>\<open>Decimal\<close>. Floats and \<^verbatim>\<open>Decimal\<close> values themselves are real
  numbers; constants are the decimal numbers written in the source.\<close>

record arith =
  f_add :: "real \<Rightarrow> real \<Rightarrow> real"
  f_sub :: "real \<Rightarrow> real \<Rightarrow> real"
  f_mul :: "real \<Rightarrow> real \<Rightarrow> real"
  f_div :: "real \<Rightarrow> real \<Rightarrow> real"
  d_add :: "real \<Rightarrow> real \<Rightarrow> real"
  d_mul :: "real \<Rightarrow> real \<Rightarrow> real"
  d_div :: "real \<Rightarrow> real \<Rightarrow> real"
  d_of_float :: "real \<Rightarrow> real"
  f_of_d :: "real \<Rightarrow> real"

text \<open>The arithmetic without rounding, which is what the machine computes wherever
  the exact results are floats, or \<^verbatim>\<open>Decimal\<close> values within the precision.\<close>

definition exact_arith :: arith where
  "exact_arith =
     \<lparr> f_add = (+), f_sub = (-), f_mul = (*), f_div = (/),
       d_add = (+), d_mul = (*), d_div = (/), d_of_float = (\<lambda>x. x), f_of_d = (\<lambda>x. x) \<rparr>"

text \<open>\<^verbatim>\<open>sum(xs)\<close> over floats: the additions from the left, starting at 0.\<close>

definition f_sum :: "arith \<Rightarrow> real list \<Rightarrow> real" where
  "f_sum ar xs = foldl (f_add ar) 0 xs"

subsection \<open>Configuration and enumerations\<close>

definition MATCH_DURATION :: real where "MATCH_DURATION = 600"
definition CONTROL_POINT_CAPTURE_TIME :: real where "CONTROL_POINT_CAPTURE_TIME = 3"
definition RTC_MINING_RATE :: real where "RTC_MINING_RATE = 1 / 1000"
definition ATTACK_THRESHOLD :: real where "ATTACK_THRESHOLD = 51 / 100"
definition LOSER_PENALTY :: real where "LOSER_PENALTY = 5 / 10"

datatype ControlState = NEUTRAL | CONTESTED | CONTROLLED_TEAM1 | CONTROLLED_TEAM2

datatype AttackPhase = MINING | ATTACK_IMMINENT | ATTACK_EXECUTED | DEFENSE_RALLY

text \<open>The two keys \<^verbatim>\<open>"team1"\<close> and \<^verbatim>\<open>"team2"\<close> of \<^verbatim>\<open>capture_progress\<close> and
  \<^verbatim>\<open>players_on_point\<close>; \<^verbatim>\<open>controlling_team\<close> and \<^verbatim>\<open>attack_executed_by\<close> are only ever
  assigned \<^verbatim>\<open>None\<close> or one of them. A player's \<^verbatim>\<open>team\<close> is whatever string
  \<^verbatim>\<open>add_player\<close> was given.\<close>

datatype team_id = Team1 | Team2

definition team_key :: "string \<Rightarrow> team_id option" where
  "team_key t = (if t = ''team1'' then Some Team1 else if t = ''team2'' then Some Team2 else None)"

fun other_team :: "team_id \<Rightarrow> team_id" where
  "other_team Team1 = Team2"
| "other_team Team2 = Team1"

text \<open>What a call did: it returned a value or raised.\<close>

datatype 'a outcome = Returned 'a | Raised py_error

subsection \<open>State\<close>

record TeamState =
  ts_name :: string
  ts_members :: "string list"
  ts_control_time :: real
  ts_rtc_mined :: real
  ts_kills :: int
  ts_deaths :: int
  ts_captures :: int

definition new_TeamState :: "string \<Rightarrow> TeamState" where
  "new_TeamState n =
     \<lparr> ts_name = n, ts_members = [], ts_control_time = 0, ts_rtc_mined = 0, ts_kills = 0,
       ts_deaths = 0, ts_captures = 0 \<rparr>"

record PlayerStats =
  pl_name :: string
  pl_team :: string
  pl_control_time :: real
  pl_rtc_earned :: real
  point_captures :: int
  point_defenses :: int
  kills_on_point :: int

definition new_PlayerStats :: "string \<Rightarrow> string \<Rightarrow> PlayerStats" where
  "new_PlayerStats n t =
     \<lparr> pl_name = n, pl_team = t, pl_control_time = 0, pl_rtc_earned = 0, point_captures = 0,
       point_defenses = 0, kills_on_point = 0 \<rparr>"

record team_summary =
  sm_name :: string
  sm_control_percent :: real
  sm_rtc_mined :: real
  sm_kills :: int
  sm_captures :: int
  sm_rtc_final :: "real option"

record player_reward =
  rw_rtc :: real
  rw_control_time :: real
  rw_captures :: int
  rw_defenses :: int
  rw_kills_on_point :: int

datatype victory = ATTACK_51 | MAJORITY_CONTROL | DRAW

text \<open>The dictionary \<^verbatim>\<open>end_match\<close> returns. \<^verbatim>\<open>rtc_final\<close> of a team and
  \<^verbatim>\<open>special_message\<close> are present only in some results; the message, when present, is
  determined by the names of the winning and the losing team.\<close>

record end_result =
  match_ended :: bool
  er_duration :: real
  er_winner :: string
  victory_type :: victory
  er_team1 :: team_summary
  er_team2 :: team_summary
  special_message :: "(string \<times> string) option"
  player_rewards :: "(string \<times> player_reward) list"

datatype event_data =
  MatchStartData "string list" real real
| NeutralizedData team_id
| CapturedData team_id string
| MatchEndData end_result

record event =
  ev_data :: event_data
  ev_time :: real

record FiftyOneAttackMode =
  team1 :: TeamState
  team2 :: TeamState
  control_state :: ControlState
  controlling_team :: "team_id option"
  capture_progress :: "team_id \<Rightarrow> real"
  players_on_point :: "team_id \<Rightarrow> string list"
  match_start :: real
  match_duration :: real
  phase :: AttackPhase
  attack_executed_by :: "team_id option"
  players :: "(string \<times> PlayerStats) list"
  events :: "event list"
  match_rtc_pool :: real
  winner_bonus_pool :: real

definition FiftyOneAttackMode_init :: "string \<Rightarrow> string \<Rightarrow> FiftyOneAttackMode" where
  "FiftyOneAttackMode_init team1_name team2_name =
     \<lparr> team1 = new_TeamState team1_name, team2 = new_TeamState team2_name,
       control_state = NEUTRAL, controlling_team = None,
       capture_progress = (\<lambda>t. 0), players_on_point = (\<lambda>t. []),
       match_start = 0, match_duration = MATCH_DURATION, phase = MINING,
       attack_executed_by = None, players = [], events = [],
       match_rtc_pool = 1, winner_bonus_pool = 5 / 10 \<rparr>"

text \<open>\<^verbatim>\<open>self.team1 if t == "team1" else self.team2\<close>, for reading and for updating the
  selected team object.\<close>

fun team_obj :: "FiftyOneAttackMode \<Rightarrow> team_id \<Rightarrow> TeamState" where
  "team_obj s Team1 = team1 s"
| "team_obj s Team2 = team2 s"

fun map_team :: "team_id \<Rightarrow> (TeamState \<Rightarrow> TeamState) \<Rightarrow> FiftyOneAttackMode \<Rightarrow> FiftyOneAttackMode" where
  "map_team Team1 f s = s\<lparr>team1 := f (team1 s)\<rparr>"
| "map_team Team2 f s = s\<lparr>team2 := f (team2 s)\<rparr>"

text \<open>The same selection on a team string: everything but \<^verbatim>\<open>"team1"\<close> selects the
  second team.\<close>

definition str_team :: "string \<Rightarrow> team_id" where
  "str_team t = (if t = ''team1'' then Team1 else Team2)"

definition get_team_name :: "FiftyOneAttackMode \<Rightarrow> team_id option \<Rightarrow> string" where
  "get_team_name s t =
     (case t of Some Team1 \<Rightarrow> ts_name (team1 s) | Some Team2 \<Rightarrow> ts_name (team2 s)
      | None \<Rightarrow> ''None'')"

definition get_control_percent :: "arith \<Rightarrow> FiftyOneAttackMode \<Rightarrow> team_id \<Rightarrow> real \<Rightarrow> real" where
  "get_control_percent ar s t match_time =
     (if match_time \<le> 0 then 0 else f_div ar (ts_control_time (team_obj s t)) match_time)"

definition log_event ::
  "arith \<Rightarrow> real \<Rightarrow> event_data \<Rightarrow> FiftyOneAttackMode \<Rightarrow> FiftyOneAttackMode" where
  "log_event ar now d s =
     s\<lparr>events := events s @ [\<lparr> ev_data = d, ev_time = f_sub ar now (match_start s) \<rparr>]\<rparr>"

subsection \<open>Status\<close>

record team_status =
  tst_name :: string
  tst_control_percent :: real
  tst_rtc_mined :: real
  tst_players_on_point :: nat
  tst_capture_progress :: real

record status =
  st_phase :: AttackPhase
  st_match_time :: real
  st_time_remaining :: real
  st_control_state :: ControlState
  st_controlling_team :: string
  st_team1 :: team_status
  st_team2 :: team_status
  st_attack_executed_by :: string

definition team_status_of ::
  "arith \<Rightarrow> FiftyOneAttackMode \<Rightarrow> team_id \<Rightarrow> real \<Rightarrow> team_status" where
  "team_status_of ar s t match_time =
     \<lparr> tst_name = ts_name (team_obj s t),
       tst_control_percent = f_mul ar (get_control_percent ar s t match_time) 100,
       tst_rtc_mined = f_of_d ar (ts_rtc_mined (team_obj s t)),
       tst_players_on_point = length (players_on_point s t),
       tst_capture_progress =
         f_mul ar (f_div ar (capture_progress s t) CONTROL_POINT_CAPTURE_TIME) 100 \<rparr>"

definition get_status :: "arith \<Rightarrow> real \<Rightarrow> FiftyOneAttackMode \<Rightarrow> status" where
  "get_status ar now s =
     (let match_time = (if match_start s \<noteq> 0 then f_sub ar now (match_start s) else 0)
      in \<lparr> st_phase = phase s, st_match_time = match_time,
            st_time_remaining = max 0 (f_sub ar (match_duration s) match_time),
            st_control_state = control_state s,
            st_controlling_team = get_team_name s (controlling_team s),
            st_team1 = team_status_of ar s Team1 match_time,
            st_team2 = team_status_of ar s Team2 match_time,
            st_attack_executed_by = get_team_name s (attack_executed_by s) \<rparr>)"

subsection \<open>Match set-up and zone occupancy\<close>

definition start_match ::
  "arith \<Rightarrow> real \<Rightarrow> FiftyOneAttackMode \<Rightarrow> status \<times> FiftyOneAttackMode" where
  "start_match ar now s =
     (let s1 = s\<lparr> match_start := now, control_state := NEUTRAL, controlling_team := None,
                  capture_progress := (\<lambda>t. 0), phase := MINING, attack_executed_by := None,
                  team1 := (team1 s)\<lparr>ts_control_time := 0, ts_rtc_mined := 0\<rparr>,
                  team2 := (team2 s)\<lparr>ts_control_time := 0, ts_rtc_mined := 0\<rparr>,
                  events := [] \<rparr>;
          s2 = log_event ar now
                 (MatchStartData [ts_name (team1 s1), ts_name (team2 s1)] (match_duration s1)
                    ATTACK_THRESHOLD) s1
      in (get_status ar now s2, s2))"

text \<open>\<^verbatim>\<open>add_player\<close> returns the display name of the team the player was put in.\<close>

definition add_player :: "string \<Rightarrow> string \<Rightarrow> FiftyOneAttackMode \<Rightarrow> string \<times> FiftyOneAttackMode" where
  "add_player n t s =
     (let s1 = map_team (str_team t) (\<lambda>tm. tm\<lparr>ts_members := set_add n (ts_members tm)\<rparr>) s;
          s2 = s1\<lparr>players := dict_set (players s1) n (new_PlayerStats n t)\<rparr>
      in (ts_name (team_obj s2 (str_team t)), s2))"

datatype zone_result = NotInMatch | InZone string

text \<open>\<^verbatim>\<open>players_on_point[team]\<close> raises \<^verbatim>\<open>KeyError\<close> when the player's team string is
  not one of the two keys; nothing has been mutated by then.\<close>

definition player_enter_point ::
  "string \<Rightarrow> FiftyOneAttackMode \<Rightarrow> zone_result outcome \<times> FiftyOneAttackMode" where
  "player_enter_point player s =
     (case map_of (players s) player of
        None \<Rightarrow> (Returned NotInMatch, s)
      | Some p \<Rightarrow>
          (case team_key (pl_team p) of
             None \<Rightarrow> (Raised KeyError, s)
           | Some t \<Rightarrow>
               (Returned (InZone (pl_team p)),
                s\<lparr>players_on_point := (players_on_point s)(t := set_add player (players_on_point s t))\<rparr>)))"

definition player_leave_point ::
  "string \<Rightarrow> FiftyOneAttackMode \<Rightarrow> zone_result outcome \<times> FiftyOneAttackMode" where
  "player_leave_point player s =
     (case map_of (players s) player of
        None \<Rightarrow> (Returned NotInMatch, s)
      | Some p \<Rightarrow>
          (case team_key (pl_team p) of
             None \<Rightarrow> (Raised KeyError, s)
           | Some t \<Rightarrow>
               (Returned (InZone (pl_team p)),
                s\<lparr>players_on_point :=
                    (players_on_point s)(t := set_discard player (players_on_point s t))\<rparr>)))"

subsection \<open>Capture\<close>

text \<open>A loop \<^verbatim>\<open>for player in names: self.players[player].field += ...\<close>: the players
  dictionary after the loop and whether the loop ran to its end; \<open>False\<close> is a
  \<^verbatim>\<open>KeyError\<close> at a name without an entry, with the earlier iterations done.\<close>

fun credit_loop ::
  "(PlayerStats \<Rightarrow> PlayerStats) \<Rightarrow> string list \<Rightarrow> (string \<times> PlayerStats) list
     \<Rightarrow> (string \<times> PlayerStats) list \<times> bool" where
  "credit_loop f [] ps = (ps, True)"
| "credit_loop f (n # ns) ps =
     (case map_of ps n of
        None \<Rightarrow> (ps, False)
      | Some p \<Rightarrow> credit_loop f ns (dict_set ps n (f p)))"

text \<open>\<^verbatim>\<open>_process_capture\<close>: the new state and whether it returned (\<open>False\<close>: it raised
  \<^verbatim>\<open>KeyError\<close> in the loop over the players on the point).\<close>

definition process_capture ::
  "arith \<Rightarrow> real \<Rightarrow> team_id \<Rightarrow> real \<Rightarrow> FiftyOneAttackMode \<Rightarrow> FiftyOneAttackMode \<times> bool" where
  "process_capture ar now team dt s =
     (let other = other_team team in
      if controlling_team s = Some team then (s, True)
      else if controlling_team s = Some other then
        (let s1 = s\<lparr>capture_progress :=
                     (capture_progress s)(other := f_sub ar (capture_progress s other) dt)\<rparr>
         in if capture_progress s1 other \<le> 0
            then (log_event ar now (NeutralizedData team)
                    (s1\<lparr> capture_progress := (capture_progress s1)(other := 0),
                         control_state := NEUTRAL, controlling_team := None \<rparr>), True)
            else (s1, True))
      else
        (let s1 = s\<lparr>capture_progress :=
                     (capture_progress s)(team := f_add ar (capture_progress s team) dt)\<rparr>
         in if capture_progress s1 team \<ge> CONTROL_POINT_CAPTURE_TIME then
              (let s2 = s1\<lparr> controlling_team := Some team,
                            control_state := (if team = Team1 then CONTROLLED_TEAM1
                                              else CONTROLLED_TEAM2) \<rparr>;
                   s3 = map_team team (\<lambda>tm. tm\<lparr>ts_captures := ts_captures tm + 1\<rparr>) s2;
                   (ps, ok) = credit_loop (\<lambda>p. p\<lparr>point_captures := point_captures p + 1\<rparr>)
                                (players_on_point s3 team) (players s3);
                   s4 = s3\<lparr>players := ps\<rparr>
               in if ok
                  then (log_event ar now (CapturedData team (get_team_name s4 (Some team))) s4,
                        True)
                  else (s4, False))
            else (s1, True)))"

subsection \<open>Settlement\<close>

text \<open>One round of the loop over the two teams at the end of \<^verbatim>\<open>end_match\<close>: the
  players of the team get their payout written, and their entries are put into
  \<^verbatim>\<open>player_rewards\<close>.\<close>

definition settle_team ::
  "arith \<Rightarrow> string \<Rightarrow> real \<Rightarrow> (string \<times> PlayerStats) list \<times> (string \<times> player_reward) list
     \<Rightarrow> (string \<times> PlayerStats) list \<times> (string \<times> player_reward) list" where
  "settle_team ar team_id rtc acc =
     (let ps = fst acc; rewards = snd acc;
          team_players = filter (\<lambda>p. pl_team p = team_id) (map snd ps)
      in if team_players = [] then (ps, rewards)
         else
           (let n = real (length team_players);
                base_share = d_div ar rtc n;
                total_control_time = f_sum ar (map pl_control_time team_players);
                control_share = (\<lambda>p. if total_control_time > 0
                                      then d_of_float ar
                                             (f_div ar (pl_control_time p) total_control_time)
                                      else d_div ar 1 n);
                player_rtc = (\<lambda>p. d_add ar (d_mul ar base_share (5 / 10))
                                      (d_mul ar (d_mul ar rtc (control_share p)) (5 / 10)))
            in (map (\<lambda>(k, p). if pl_team p = team_id
                               then (k, p\<lparr>pl_rtc_earned := player_rtc p\<rparr>) else (k, p)) ps,
                foldl (\<lambda>r p. dict_set r (pl_name p)
                                \<lparr> rw_rtc = f_of_d ar (player_rtc p),
                                  rw_control_time = pl_control_time p,
                                  rw_captures = point_captures p,
                                  rw_defenses = point_defenses p,
                                  rw_kills_on_point = kills_on_point p \<rparr>)
                  rewards team_players)))"

text \<open>The winner as \<^verbatim>\<open>end_match\<close> determines it, with the kind of victory.\<close>

definition determine_winner ::
  "arith \<Rightarrow> real \<Rightarrow> FiftyOneAttackMode \<Rightarrow> team_id option \<times> victory" where
  "determine_winner ar now s =
     (let match_time = f_sub ar now (match_start s);
          team1_percent = get_control_percent ar s Team1 match_time;
          team2_percent = get_control_percent ar s Team2 match_time
      in if attack_executed_by s \<noteq> None then (attack_executed_by s, ATTACK_51)
         else if team1_percent > team2_percent then (Some Team1, MAJORITY_CONTROL)
         else if team2_percent > team1_percent then (Some Team2, MAJORITY_CONTROL)
         else (None, DRAW))"

text \<open>The entry of a team in the result as it is first built, before the bonus and the
  penalty are applied.\<close>

definition team_summary_of ::
  "arith \<Rightarrow> FiftyOneAttackMode \<Rightarrow> team_id \<Rightarrow> real \<Rightarrow> team_summary" where
  "team_summary_of ar s t match_time =
     \<lparr> sm_name = ts_name (team_obj s t),
       sm_control_percent = f_mul ar (get_control_percent ar s t match_time) 100,
       sm_rtc_mined = f_of_d ar (ts_rtc_mined (team_obj s t)),
       sm_kills = ts_kills (team_obj s t),
       sm_captures = ts_captures (team_obj s t),
       sm_rtc_final = None \<rparr>"

text \<open>Winner bonus and loser penalty, the block under \<^verbatim>\<open>if winner:\<close>. There is no
  flag that records a settlement: the block runs in every call that finds a winner.\<close>

definition apply_bonus_penalty ::
  "arith \<Rightarrow> team_id option \<Rightarrow> FiftyOneAttackMode \<Rightarrow> FiftyOneAttackMode" where
  "apply_bonus_penalty ar winner s =
     (case winner of
        None \<Rightarrow> s
      | Some w \<Rightarrow>
          map_team (other_team w)
            (\<lambda>tm. tm\<lparr>ts_rtc_mined := d_mul ar (ts_rtc_mined tm) (d_of_float ar LOSER_PENALTY)\<rparr>)
            (map_team w
               (\<lambda>tm. tm\<lparr>ts_rtc_mined := d_add ar (ts_rtc_mined tm) (winner_bonus_pool s)\<rparr>) s))"

definition end_match ::
  "arith \<Rightarrow> real \<Rightarrow> FiftyOneAttackMode \<Rightarrow> end_result \<times> FiftyOneAttackMode" where
  "end_match ar now s =
     (let match_time = f_sub ar now (match_start s);
          (winner, vtype) = determine_winner ar now s;
          sum1 = team_summary_of ar s Team1 match_time;
          sum2 = team_summary_of ar s Team2 match_time;
          s1 = apply_bonus_penalty ar winner s;
          fin = (\<lambda>t. case winner of
                        None \<Rightarrow> None
                      | Some w \<Rightarrow> Some (f_of_d ar (ts_rtc_mined (team_obj s1 t))));
          msg = (case winner of
                   None \<Rightarrow> None
                 | Some w \<Rightarrow> if vtype = ATTACK_51
                             then Some (ts_name (team_obj s1 w), ts_name (team_obj s1 (other_team w)))
                             else None);
          (ps1, rw1) = settle_team ar ''team1'' (ts_rtc_mined (team1 s1)) (players s1, []);
          (ps2, rw2) = settle_team ar ''team2'' (ts_rtc_mined (team2 s1)) (ps1, rw1);
          s2 = s1\<lparr>players := ps2\<rparr>;
          result = \<lparr> match_ended = True, er_duration = match_time,
                     er_winner = (case winner of None \<Rightarrow> ''None''
                                  | Some w \<Rightarrow> get_team_name s winner),
                     victory_type = vtype,
                     er_team1 = sum1\<lparr>sm_rtc_final := fin Team1\<rparr>,
                     er_team2 = sum2\<lparr>sm_rtc_final := fin Team2\<rparr>,
                     special_message = msg, player_rewards = rw2 \<rparr>
      in (result, log_event ar now (MatchEndData result) s2))"

subsection \<open>The tick\<close>

text \<open>Mining while a team controls: the team's totals grow, and the players of that
  team on the point share the amount. \<open>False\<close>: \<^verbatim>\<open>KeyError\<close> in the loop.\<close>

definition mine :: "arith \<Rightarrow> real \<Rightarrow> FiftyOneAttackMode \<Rightarrow> FiftyOneAttackMode \<times> bool" where
  "mine ar dt s =
     (case controlling_team s of
        None \<Rightarrow> (s, True)
      | Some t \<Rightarrow>
          (let rtc_gained = d_mul ar RTC_MINING_RATE (d_of_float ar dt);
               s1 = map_team t (\<lambda>tm. tm\<lparr>ts_rtc_mined := d_add ar (ts_rtc_mined tm) rtc_gained\<rparr>) s;
               s2 = map_team t (\<lambda>tm. tm\<lparr>ts_control_time := f_add ar (ts_control_time tm) dt\<rparr>) s1;
               on_point = players_on_point s2 t
           in if on_point \<noteq> [] then
                (let per_player = d_div ar rtc_gained (real (length on_point));
                     (ps, ok) = credit_loop
                                  (\<lambda>p. p\<lparr> pl_rtc_earned := d_add ar (pl_rtc_earned p) per_player,
                                          pl_control_time := f_add ar (pl_control_time p) dt \<rparr>)
                                  on_point (players s2)
                 in (s2\<lparr>players := ps\<rparr>, ok))
              else (s2, True)))"

datatype announcement = AttackImminent team_id real | AttackExecuted team_id

definition phase_transitions ::
  "arith \<Rightarrow> real \<Rightarrow> FiftyOneAttackMode \<Rightarrow> FiftyOneAttackMode \<times> announcement list" where
  "phase_transitions ar match_time s =
     (let team1_percent = get_control_percent ar s Team1 match_time;
          team2_percent = get_control_percent ar s Team2 match_time;
          (s1, a1) =
             (if phase s = MINING \<and> (team1_percent \<ge> 45 / 100 \<or> team2_percent \<ge> 45 / 100)
              then (s\<lparr>phase := ATTACK_IMMINENT\<rparr>,
                    [AttackImminent (if team1_percent > team2_percent then Team1 else Team2)
                       (f_mul ar (max team1_percent team2_percent) 100)])
              else (s, []))
      in if team1_percent \<ge> ATTACK_THRESHOLD \<and> attack_executed_by s1 = None
         then (s1\<lparr>attack_executed_by := Some Team1, phase := ATTACK_EXECUTED\<rparr>,
               a1 @ [AttackExecuted Team1])
         else if team2_percent \<ge> ATTACK_THRESHOLD \<and> attack_executed_by s1 = None
         then (s1\<lparr>attack_executed_by := Some Team2, phase := ATTACK_EXECUTED\<rparr>,
               a1 @ [AttackExecuted Team2])
         else (s1, a1))"

datatype tick_event = Neutralized

text \<open>The occupancy part of \<^verbatim>\<open>update\<close>: the point state from the number of players of
  each team on the point.\<close>

definition occupancy ::
  "arith \<Rightarrow> real \<Rightarrow> real \<Rightarrow> FiftyOneAttackMode
     \<Rightarrow> FiftyOneAttackMode \<times> tick_event list \<times> bool" where
  "occupancy ar now dt s =
     (let team1_count = length (players_on_point s Team1);
          team2_count = length (players_on_point s Team2)
      in if team1_count > 0 \<and> team2_count > 0 then
           (s\<lparr> control_state := CONTESTED,
               capture_progress :=
                 (\<lambda>t. max 0 (f_sub ar (capture_progress s t) (f_mul ar dt (5 / 10)))) \<rparr>,
            [], True)
         else if team1_count > 0 then
           (let (s1, ok) = process_capture ar now Team1 dt s in (s1, [], ok))
         else if team2_count > 0 then
           (let (s1, ok) = process_capture ar now Team2 dt s in (s1, [], ok))
         else
           (let s1 = s\<lparr>capture_progress :=
                        (\<lambda>t. max 0 (f_sub ar (capture_progress s t) (f_mul ar dt (3 / 10))))\<rparr>
            in if capture_progress s1 Team1 = 0 \<and> capture_progress s1 Team2 = 0
                  \<and> control_state s1 \<noteq> NEUTRAL
               then (s1\<lparr>control_state := NEUTRAL, controlling_team := None\<rparr>, [Neutralized], True)
               else (s1, [], True)))"

record tick_result =
  tick_events :: "tick_event list"
  announcements :: "announcement list"
  tick_status :: status

datatype update_result = Tick tick_result | Ended end_result

text \<open>\<^verbatim>\<open>FiftyOneAttackMode.update\<close>. Once the match time has reached the match
  duration the call is \<^verbatim>\<open>return self.end_match()\<close>.\<close>

definition mode_update ::
  "arith \<Rightarrow> real \<Rightarrow> real \<Rightarrow> FiftyOneAttackMode
     \<Rightarrow> update_result outcome \<times> FiftyOneAttackMode" where
  "mode_update ar now dt s =
     (let match_time = f_sub ar now (match_start s) in
      if match_time \<ge> match_duration s
      then (let (r, s') = end_match ar now s in (Returned (Ended r), s'))
      else
        (let (s1, evs, ok1) = occupancy ar now dt s in
         if \<not> ok1 then (Raised KeyError, s1)
         else
           (let (s2, ok2) = mine ar dt s1 in
            if \<not> ok2 then (Raised KeyError, s2)
            else
              (let (s3, anns) = phase_transitions ar match_time s2
               in (Returned (Tick \<lparr> tick_events = evs, announcements = anns,
                                     tick_status = get_status ar now s3 \<rparr>), s3)))))"

subsection \<open>Kills on the point\<close>




subsection \<open>Histories of a match\<close>





section \<open>Invariants and scenarios of the blood economy\<close>

definition state_ok :: "BloodState \<Rightarrow> bool" where
  "state_ok st \<longleftrightarrow> 0 \<le> shield st \<and> shield st \<le> SHIELD_MAX \<and> 0 \<le> kills_without_damage st"

definition economy_ok :: "BloodEconomy \<Rightarrow> bool" where
  "economy_ok e \<longleftrightarrow> list_all (\<lambda>(n, st). state_ok st) (be_players e)"

definition blood_scenario :: "blood_op list" where
  "blood_scenario =
     [DamageDealt 1 ''a'' ''b'' 60 MELEE 100 False,
      Kill 2 ''a'' ''b'' SHOTGUN 250,
      DamageTaken 3 ''a'' 10 ''b'',
      Update 9 (Some 1),
      Death 10 ''b'',
      Update 11 None]"

definition streak_scenario :: "blood_op list" where
  "streak_scenario =
     [Kill 1 ''a'' ''b'' ROCKET 900, Kill 2 ''a'' ''c'' ROCKET 900, Kill 3 ''a'' ''d'' ROCKET 900]"

definition shield_before :: "real \<Rightarrow> BloodEconomy \<Rightarrow> string \<Rightarrow> real" where
  "shield_before now e name = shield (fst (get_player now e name))"

definition dealt_scenario :: "BloodEconomy" where
  "dealt_scenario =
     blood_run (BloodEconomy_init 0) [DamageDealt 1 ''a'' ''b'' 100 MACHINEGUN 800 False]"

section \<open>Invariants and scenarios of the style system\<close>

text \<open>The points of a player are not negative and the rank is the one the scan gives
  for them.\<close>

definition player_ok :: "PlayerStyle \<Rightarrow> bool" where
  "player_ok p \<longleftrightarrow> 0 \<le> points p \<and> rank p = rank_for_points (points p)"

definition system_ok :: "StyleSystem \<Rightarrow> bool" where
  "system_ok s \<longleftrightarrow> list_all (\<lambda>(n, p). player_ok p) (ss_players s)"

text \<open>A history with a kill that ranks the killer up, a decay that ranks the killer
  down, and a revenge kill with its death reset; and the states it passes through.\<close>

definition style_scenario :: "style_op list" where
  "style_scenario =
     [ProcessKill 1 ''a'' ''b'' ''shotgun'',
      StyleUpdate 5,
      ProcessKill 6 ''b'' ''a'' ''vortex'']"

definition victim_b :: PlayerStyle where
  "victim_b = (new_PlayerStyle ''b'')\<lparr>deaths := 1, last_killer := ''a''\<rparr>"

definition system_one_kill :: StyleSystem where
  "system_one_kill =
     \<lparr> ss_players =
         [(''a'', \<lparr> ps_name = ''a'', points = 300, rank = B_BUILDING, kills_this_life = 1,
                    total_kills = 1, deaths = 0, last_kill_time = 1, recent_kills = [1],
                    weapons_used = [''shotgun''], last_killer = [], total_rtc = 9 / 1000,
                    killstreak = 1, best_streak = 1 \<rparr>),
          (''b'', victim_b)],
       first_blood_claimed = True, match_start_time = 0, ss_last_update = 0 \<rparr>"

definition system_decayed :: StyleSystem where
  "system_decayed =
     \<lparr> ss_players =
         [(''a'', \<lparr> ps_name = ''a'', points = 225, rank = C_CALCULATING, kills_this_life = 1,
                    total_kills = 1, deaths = 0, last_kill_time = 1, recent_kills = [1],
                    weapons_used = [''shotgun''], last_killer = [], total_rtc = 9 / 1000,
                    killstreak = 1, best_streak = 1 \<rparr>),
          (''b'', victim_b)],
       first_blood_claimed = True, match_start_time = 0, ss_last_update = 5 \<rparr>"

definition player_a_final :: PlayerStyle where
  "player_a_final =
     \<lparr> ps_name = ''a'', points = 112, rank = C_CALCULATING, kills_this_life = 0,
       total_kills = 1, deaths = 1, last_kill_time = 1, recent_kills = [],
       weapons_used = [], last_killer = ''b'', total_rtc = 9 / 1000, killstreak = 0,
       best_streak = 1 \<rparr>"

definition system_final :: StyleSystem where
  "system_final =
     \<lparr> ss_players =
         [(''a'', player_a_final),
          (''b'', \<lparr> ps_name = ''b'', points = 175, rank = C_CALCULATING, kills_this_life = 1,
                    total_kills = 1, deaths = 1, last_kill_time = 6, recent_kills = [6],
                    weapons_used = [''vortex''], last_killer = [], total_rtc = 3 / 1250,
                    killstreak = 1, best_streak = 1 \<rparr>)],
       first_blood_claimed = True, match_start_time = 0, ss_last_update = 5 \<rparr>"

text \<open>A killer at 700 points, rank \<open>A_ATTACKING\<close>, with one kill two seconds ago, whose
  next kill is a double kill and nothing else: 100 points for the kill and 50 for the
  combo.\<close>

definition killer_700 :: PlayerStyle where
  "killer_700 =
     \<lparr> ps_name = ''a'', points = 700, rank = A_ATTACKING, kills_this_life = 1,
       total_kills = 6, deaths = 2, last_kill_time = 8, recent_kills = [8],
       weapons_used = [''shotgun''], last_killer = ''c'', total_rtc = 3 / 100,
       killstreak = 1, best_streak = 3 \<rparr>"

definition system_700 :: StyleSystem where
  "system_700 =
     \<lparr> ss_players = [(''a'', killer_700), (''b'', new_PlayerStyle ''b'')],
       first_blood_claimed = True, match_start_time = 0, ss_last_update = 9 \<rparr>"

text \<open>A player at 100 points and rank \<open>C_CALCULATING\<close>, which decays by 10 points a
  second.\<close>

definition player_100 :: PlayerStyle where
  "player_100 = (new_PlayerStyle ''a'')\<lparr>points := 100, rank := C_CALCULATING\<rparr>"

section \<open>Invariants and scenarios of the 51% attack mode\<close>


text \<open>The part of the state the control point consists of.\<close>

definition cap ::
  "FiftyOneAttackMode \<Rightarrow> team_id option \<times> (team_id \<Rightarrow> real) \<times> ControlState" where
  "cap s = (controlling_team s, capture_progress s, control_state s)"

definition controls :: "FiftyOneAttackMode \<Rightarrow> team_id \<Rightarrow> bool" where
  "controls s t \<longleftrightarrow> controlling_team s = Some t"





text \<open>A match of 600 seconds started at time 1000, in which the first team has held the
  point for 306 seconds and has executed the attack, and the second team for 100
  seconds; each team has mined what its control time gives, and the player of the first
  team stands on the point.\<close>

definition settle_state :: FiftyOneAttackMode where
  "settle_state =
     \<lparr> team1 = \<lparr> ts_name = ''Validators'', ts_members = [''a''], ts_control_time = 306,
                 ts_rtc_mined = 306 / 1000, ts_kills = 0, ts_deaths = 0, ts_captures = 1 \<rparr>,
       team2 = \<lparr> ts_name = ''Attackers'', ts_members = [''b''], ts_control_time = 100,
                 ts_rtc_mined = 100 / 1000, ts_kills = 0, ts_deaths = 0, ts_captures = 1 \<rparr>,
       control_state = CONTROLLED_TEAM1, controlling_team = Some Team1,
       capture_progress = (\<lambda>t. 0)(Team1 := 3),
       players_on_point = (\<lambda>t. [])(Team1 := [''a'']),
       match_start = 1000, match_duration = MATCH_DURATION, phase = ATTACK_EXECUTED,
       attack_executed_by = Some Team1,
       players = [(''a'', \<lparr> pl_name = ''a'', pl_team = ''team1'', pl_control_time = 306,
                            pl_rtc_earned = 306 / 1000, point_captures = 1,
                            point_defenses = 0, kills_on_point = 0 \<rparr>),
                  (''b'', \<lparr> pl_name = ''b'', pl_team = ''team2'', pl_control_time = 100,
                            pl_rtc_earned = 100 / 1000, point_captures = 1,
                            point_defenses = 0, kills_on_point = 0 \<rparr>)],
       events = [], match_rtc_pool = 1, winner_bonus_pool = 5 / 10 \<rparr>"

section \<open>Dictionaries\<close>

lemma list_all_dict_set:
  "list_all P kvs \<Longrightarrow> P (k, v) \<Longrightarrow> list_all P (dict_set kvs k v)"
  by (induction kvs) auto

lemma map_of_dict_set: "map_of (dict_set kvs k v) = (map_of kvs)(k \<mapsto> v)"
  by (induction kvs) auto

lemma list_all_map_of:
  "list_all (\<lambda>(n, st). P st) kvs \<Longrightarrow> map_of kvs k = Some v \<Longrightarrow> P v"
  by (induction kvs) (auto split: if_splits)

section \<open>Verification of the blood economy\<close>

lemmas blood_consts =
  SHIELD_MAX_def SHIELD_DECAY_RATE_def SHIELD_DECAY_DELAY_def DAMAGE_TO_SHIELD_RATIO_def
  CLOSE_RANGE_MULTIPLIER_def MELEE_KILL_SHIELD_def HEADSHOT_BONUS_def KILL_SHIELD_BONUS_def
  CLOSE_RANGE_def MID_RANGE_def LONG_RANGE_def

lemmas blood_ops =
  on_damage_dealt_def on_kill_def on_damage_taken_def on_death_def update_def
  get_player_def put_player_def new_BloodState_def Let_def distance_mult_def
  deque_append_def get_bonuses_def update_player_def is_decaying_def BloodEconomy_init_def
  shield_of_def

lemma state_ok_new: "state_ok (new_BloodState now)"
  by (simp add: state_ok_def new_BloodState_def SHIELD_MAX_def)

lemma get_player_ok:
  assumes "economy_ok e" and "get_player now e name = (st, e1)"
  shows "state_ok st \<and> economy_ok e1"
  using assms
  by (auto simp: get_player_def economy_ok_def state_ok_new list_all_dict_set
      split: option.splits dest: list_all_map_of)

lemma put_player_ok: "economy_ok e \<Longrightarrow> state_ok st \<Longrightarrow> economy_ok (put_player e name st)"
  by (simp add: put_player_def economy_ok_def list_all_dict_set)

lemma distance_mult_pos: "0 < distance_mult d"
  by (auto simp: distance_mult_def blood_consts Let_def min_def field_simps)

lemma WEAPON_RANGE_BONUS_pos: "0 < WEAPON_RANGE_BONUS w"
  by (cases w) simp_all

lemma shield_gain_nonneg:
  "0 \<le> damage \<Longrightarrow> 0 \<le> damage * DAMAGE_TO_SHIELD_RATIO * distance_mult d * WEAPON_RANGE_BONUS w"
  using distance_mult_pos [of d] WEAPON_RANGE_BONUS_pos [of w]
  by (simp add: DAMAGE_TO_SHIELD_RATIO_def)

lemma on_damage_dealt_ok:
  assumes "economy_ok e" and "0 \<le> damage"
  shows "economy_ok (snd (on_damage_dealt now e a v damage w d hs))"
proof -
  obtain st e1 where g: "get_player now e a = (st, e1)" by (cases "get_player now e a")
  from get_player_ok [OF assms(1) g] have st: "state_ok st" and e1: "economy_ok e1" by simp_all
  have gain: "0 \<le> damage * DAMAGE_TO_SHIELD_RATIO * distance_mult d * WEAPON_RANGE_BONUS w"
    by (rule shield_gain_nonneg [OF assms(2)])
  show ?thesis
    using st e1 gain
    by (auto simp: on_damage_dealt_def g Let_def put_player_def economy_ok_def state_ok_def
        HEADSHOT_BONUS_def SHIELD_MAX_def intro!: list_all_dict_set)
qed

lemma on_kill_ok:
  assumes "economy_ok e"
  shows "economy_ok (snd (on_kill now e k v w d))"
proof -
  obtain st e1 where g: "get_player now e k = (st, e1)" by (cases "get_player now e k")
  from get_player_ok [OF assms(1) g] have st: "state_ok st" and e1: "economy_ok e1" by simp_all
  show ?thesis
    using st e1
    by (auto simp: on_kill_def g Let_def put_player_def economy_ok_def state_ok_def
        blood_consts intro!: list_all_dict_set)
qed

lemma on_damage_taken_ok:
  assumes "economy_ok e"
  shows "economy_ok (snd (on_damage_taken now e p dmg a))"
proof -
  obtain st e1 where g: "get_player now e p = (st, e1)" by (cases "get_player now e p")
  from get_player_ok [OF assms(1) g] have st: "state_ok st" and e1: "economy_ok e1" by simp_all
  show ?thesis
    using st e1
    by (auto simp: on_damage_taken_def g Let_def put_player_def economy_ok_def state_ok_def
        intro!: list_all_dict_set)
qed

lemma on_death_ok:
  assumes "economy_ok e"
  shows "economy_ok (snd (on_death now e p))"
proof -
  obtain st e1 where g: "get_player now e p = (st, e1)" by (cases "get_player now e p")
  from get_player_ok [OF assms(1) g] have st: "state_ok st" and e1: "economy_ok e1" by simp_all
  show ?thesis
    using st e1
    by (auto simp: on_death_def g Let_def put_player_def economy_ok_def state_ok_def
        SHIELD_MAX_def intro!: list_all_dict_set)
qed

lemma update_player_ok:
  "state_ok st \<Longrightarrow> 0 \<le> dt \<Longrightarrow> state_ok (fst (update_player now dt st))"
  by (auto simp: update_player_def state_ok_def Let_def SHIELD_DECAY_RATE_def SHIELD_MAX_def)

lemma update_loop_ok:
  "list_all (\<lambda>(n, st). state_ok st) ps \<Longrightarrow> 0 \<le> dt
     \<Longrightarrow> list_all (\<lambda>(n, st). state_ok st) (fst (update_loop now dt ps))"
proof (induction ps)
  case Nil
  show ?case by simp
next
  case (Cons p ps)
  obtain n st where p: "p = (n, st)" by (cases p)
  from Cons.prems have st: "state_ok st" and rest: "list_all (\<lambda>(n, st). state_ok st) ps"
    by (simp_all add: p)
  from update_player_ok [OF st Cons.prems(2)] Cons.IH [OF rest Cons.prems(2)]
  show ?case by (simp add: p split_beta)
qed

lemma update_ok:
  assumes "economy_ok e" and "0 \<le> (case dt of None \<Rightarrow> now - be_last_update e | Some d \<Rightarrow> d)"
  shows "economy_ok (snd (update now dt e))"
  using update_loop_ok [OF assms(1) [unfolded economy_ok_def] assms(2), of now]
  by (simp add: update_def economy_ok_def split_beta Let_def)

lemma blood_step_ok: "economy_ok e \<Longrightarrow> op_in_range e x \<Longrightarrow> economy_ok (blood_step e x)"
proof (cases x)
  case (Update now dt)
  assume "economy_ok e" "op_in_range e x"
  then show ?thesis
    by (cases dt) (auto simp: Update intro!: update_ok)
qed (simp_all add: on_damage_dealt_ok on_kill_ok on_damage_taken_ok on_death_ok)

lemma blood_run_ok: "economy_ok e \<Longrightarrow> ops_in_range e xs \<Longrightarrow> economy_ok (blood_run e xs)"
  by (induction xs arbitrary: e) (simp_all add: blood_step_ok)

lemma economy_ok_init: "economy_ok (BloodEconomy_init t0)"
  by (simp add: economy_ok_def BloodEconomy_init_def)

text \<open>
  Claim C2, amended. After any sequence of damage-dealt, kill, damage-taken, death and
  decay-update events in which no damage amount dealt is negative and no tick applies a
  negative elapsed time, started from the empty economy, the shield of every player
  lies in the closed interval from 0 to \<open>SHIELD_MAX = 100\<close>.
\<close>

theorem shield_bounded:
  assumes "ops_in_range (BloodEconomy_init t0) ops"
    and "shield_of (blood_run (BloodEconomy_init t0) ops) name = Some s"
  shows "0 \<le> s \<and> s \<le> SHIELD_MAX"
proof -
  have "economy_ok (blood_run (BloodEconomy_init t0) ops)"
    by (rule blood_run_ok [OF economy_ok_init assms(1)])
  then have all: "list_all (\<lambda>(n, st). state_ok st) (be_players (blood_run (BloodEconomy_init t0) ops))"
    by (simp add: economy_ok_def)
  from assms(2) obtain st
    where st: "map_of (be_players (blood_run (BloodEconomy_init t0) ops)) name = Some st"
      and s: "s = shield st"
    by (auto simp: shield_of_def)
  have "state_ok st" by (rule list_all_map_of [OF all st])
  with s show ?thesis by (simp add: state_ok_def)
qed

text \<open>The theorem at a history with every kind of event.\<close>

theorem shield_bounded_witness:
  "ops_in_range (BloodEconomy_init 0) blood_scenario
   \<and> shield_of (blood_run (BloodEconomy_init 0) blood_scenario) ''a'' = Some 94
   \<and> (0::real) \<le> 94 \<and> 94 \<le> SHIELD_MAX"
proof -
  have r: "ops_in_range (BloodEconomy_init 0) blood_scenario"
    by (simp add: blood_scenario_def blood_ops blood_consts)
  have s: "shield_of (blood_run (BloodEconomy_init 0) blood_scenario) ''a'' = Some 94"
    by (simp add: blood_scenario_def blood_ops blood_consts)
  from shield_bounded [OF r s] r s show ?thesis by simp
qed

text \<open>
  Claim C2 as stated, for any sequence of events, fails: \<^verbatim>\<open>on_damage_dealt\<close> caps the
  shield at \<open>SHIELD_MAX\<close> only, so one hit with damage \<open>-100\<close> leaves a fresh player
  with shield \<open>-15\<close>.
\<close>

theorem shield_negative_damage_counterexample:
  "shield_of (blood_run (BloodEconomy_init 0)
       [DamageDealt 1 ''a'' ''b'' (- 100) MACHINEGUN 800 False]) ''a'' = Some (- 15)"
  by (simp add: blood_ops blood_consts)

text \<open>
  Claim C10. For every call of \<^verbatim>\<open>on_damage_taken\<close> the field \<^verbatim>\<open>untouchable_lost\<close> of the
  report is \<open>False\<close>, whatever the streak of kills without damage was before the call:
  the streak is set to zero before the field is computed from it.
\<close>

theorem untouchable_lost_False:
  "untouchable_lost (fst (on_damage_taken now e player damage attacker)) = False"
  by (simp add: on_damage_taken_def split_beta Let_def)

text \<open>The theorem for a player with a streak of three kills.\<close>

theorem untouchable_lost_False_witness:
  "map_option kills_without_damage
     (map_of (be_players (blood_run (BloodEconomy_init 0) streak_scenario)) ''a'') = Some 3
   \<and> untouchable_lost
       (fst (on_damage_taken 4 (blood_run (BloodEconomy_init 0) streak_scenario) ''a'' 10 ''b''))
     = False"
  using untouchable_lost_False
    [of 4 "blood_run (BloodEconomy_init 0) streak_scenario" "''a''" 10 "''b''"]
  by (simp add: streak_scenario_def blood_ops blood_consts)

lemma shield_of_dealt:
  "shield_of (snd (on_damage_dealt now e a v damage w d hs)) a
     = Some (dr_shield_current (fst (on_damage_dealt now e a v damage w d hs)))"
  by (simp add: on_damage_dealt_def split_beta Let_def shield_of_def put_player_def
      map_of_dict_set)

lemma distance_mult_nonpos: "d \<le> 0 \<Longrightarrow> distance_mult d = CLOSE_RANGE_MULTIPLIER"
  by (simp add: distance_mult_def CLOSE_RANGE_def)

text \<open>
  Claim C6, amended. A negative distance is handled as distance zero: the close-range
  multiplier applies and the attacker's shield is the one distance zero gives. A damage
  amount is never clamped, a negative one included: it enters the gain as given, and the
  attacker's shield becomes the minimum of \<open>SHIELD_MAX\<close> and the shield before plus
  damage times ratio times distance multiplier times weapon multiplier, plus the bonus
  of a headshot. So a negative amount without a headshot never leaves the shield above
  what it was, and an amount that is not negative never lowers the shield of an attacker
  who holds at most \<open>SHIELD_MAX\<close>.
\<close>

theorem damage_dealt_out_of_range:
  "(distance < 0 \<longrightarrow>
      dr_distance_mult (fst (on_damage_dealt now e a v damage w distance hs))
        = CLOSE_RANGE_MULTIPLIER
      \<and> shield_of (snd (on_damage_dealt now e a v damage w distance hs)) a
        = shield_of (snd (on_damage_dealt now e a v damage w 0 hs)) a)
   \<and> shield_of (snd (on_damage_dealt now e a v damage w distance hs)) a
       = Some (min SHIELD_MAX
                (shield_before now e a
                 + (damage * DAMAGE_TO_SHIELD_RATIO * distance_mult distance
                      * WEAPON_RANGE_BONUS w
                    + (if hs then HEADSHOT_BONUS else 0))))
   \<and> (damage < 0 \<and> \<not> hs \<longrightarrow>
        shield_of (snd (on_damage_dealt now e a v damage w distance hs)) a
          = Some (min SHIELD_MAX
                   (shield_before now e a
                    + damage * DAMAGE_TO_SHIELD_RATIO * distance_mult distance
                        * WEAPON_RANGE_BONUS w))
        \<and> the (shield_of (snd (on_damage_dealt now e a v damage w distance hs)) a)
            \<le> shield_before now e a)
   \<and> (0 \<le> damage \<and> shield_before now e a \<le> SHIELD_MAX \<longrightarrow>
        shield_of (snd (on_damage_dealt now e a v damage w distance hs)) a \<noteq> None
        \<and> shield_before now e a
            \<le> the (shield_of (snd (on_damage_dealt now e a v damage w distance hs)) a))"
proof -
  let ?gain = "damage * DAMAGE_TO_SHIELD_RATIO * distance_mult distance * WEAPON_RANGE_BONUS w"
  have eq: "shield_of (snd (on_damage_dealt now e a v damage w distance hs)) a
              = Some (min SHIELD_MAX
                       (shield_before now e a + (?gain + (if hs then HEADSHOT_BONUS else 0))))"
    by (simp add: shield_of_dealt)
       (simp add: on_damage_dealt_def split_beta Let_def shield_before_def)
  have dist: "distance < 0 \<Longrightarrow>
      dr_distance_mult (fst (on_damage_dealt now e a v damage w distance hs))
        = CLOSE_RANGE_MULTIPLIER
      \<and> shield_of (snd (on_damage_dealt now e a v damage w distance hs)) a
        = shield_of (snd (on_damage_dealt now e a v damage w 0 hs)) a"
  proof -
    assume d: "distance < 0"
    then have m: "distance_mult distance = distance_mult 0"
      by (simp add: distance_mult_nonpos)
    have "dr_distance_mult (fst (on_damage_dealt now e a v damage w distance hs))
            = CLOSE_RANGE_MULTIPLIER"
      using d by (simp add: on_damage_dealt_def split_beta Let_def distance_mult_nonpos)
    moreover have "shield_of (snd (on_damage_dealt now e a v damage w distance hs)) a
            = shield_of (snd (on_damage_dealt now e a v damage w 0 hs)) a"
      by (simp add: shield_of_dealt) (simp add: on_damage_dealt_def split_beta Let_def m)
    ultimately show ?thesis by simp
  qed
  have neg: "damage < 0 \<and> \<not> hs \<Longrightarrow>
      shield_of (snd (on_damage_dealt now e a v damage w distance hs)) a
        = Some (min SHIELD_MAX (shield_before now e a + ?gain))
      \<and> the (shield_of (snd (on_damage_dealt now e a v damage w distance hs)) a)
          \<le> shield_before now e a"
  proof -
    assume h: "damage < 0 \<and> \<not> hs"
    have "0 \<le> (- damage) * DAMAGE_TO_SHIELD_RATIO * distance_mult distance
                 * WEAPON_RANGE_BONUS w"
      using h by (intro shield_gain_nonneg) simp
    then have g: "?gain \<le> 0" by simp
    from h eq have eq': "shield_of (snd (on_damage_dealt now e a v damage w distance hs)) a
                           = Some (min SHIELD_MAX (shield_before now e a + ?gain))"
      by simp
    from g show ?thesis by (simp add: eq')
  qed
  have pos: "0 \<le> damage \<and> shield_before now e a \<le> SHIELD_MAX \<Longrightarrow>
      shield_of (snd (on_damage_dealt now e a v damage w distance hs)) a \<noteq> None
      \<and> shield_before now e a
          \<le> the (shield_of (snd (on_damage_dealt now e a v damage w distance hs)) a)"
  proof -
    assume h: "0 \<le> damage \<and> shield_before now e a \<le> SHIELD_MAX"
    then have "0 \<le> ?gain" by (simp add: shield_gain_nonneg)
    then show ?thesis using h by (simp add: eq HEADSHOT_BONUS_def)
  qed
  from eq dist neg pos show ?thesis by blast
qed

text \<open>The theorem at a hit of 40 damage from distance \<open>-50\<close> and at a hit of \<open>-40\<close>
  damage from distance 800, both by a player with shield 15.\<close>

theorem damage_dealt_out_of_range_witness:
  "(- 50 :: real) < 0 \<and> (0::real) \<le> 40 \<and> (- 40 :: real) < 0
   \<and> shield_before 2 dealt_scenario ''a'' = 15
   \<and> dr_distance_mult (fst (on_damage_dealt 2 dealt_scenario ''a'' ''b'' 40 SHOTGUN (- 50) False))
       = CLOSE_RANGE_MULTIPLIER
   \<and> shield_of (snd (on_damage_dealt 2 dealt_scenario ''a'' ''b'' 40 SHOTGUN (- 50) False)) ''a''
       = Some 60
   \<and> shield_of (snd (on_damage_dealt 2 dealt_scenario ''a'' ''b'' 40 SHOTGUN 0 False)) ''a''
       = Some 60
   \<and> shield_of (snd (on_damage_dealt 2 dealt_scenario ''a'' ''b'' (- 40) MACHINEGUN 800 False))
        ''a''
       = Some (min SHIELD_MAX
                (15 + (- 40) * DAMAGE_TO_SHIELD_RATIO * distance_mult 800
                        * WEAPON_RANGE_BONUS MACHINEGUN))
   \<and> min SHIELD_MAX
         (15 + (- 40) * DAMAGE_TO_SHIELD_RATIO * distance_mult 800
                 * WEAPON_RANGE_BONUS MACHINEGUN) = 9"
proof -
  have b: "shield_before 2 dealt_scenario ''a'' = 15"
    by (simp add: dealt_scenario_def shield_before_def blood_ops blood_consts)
  have v: "min SHIELD_MAX
             (15 + (- 40) * DAMAGE_TO_SHIELD_RATIO * distance_mult 800
                     * WEAPON_RANGE_BONUS MACHINEGUN) = 9"
    by (simp add: distance_mult_def blood_consts)
  have c: "shield_of (snd (on_damage_dealt 2 dealt_scenario ''a'' ''b'' 40 SHOTGUN 0 False)) ''a''
             = Some 60"
    by (simp add: dealt_scenario_def blood_ops blood_consts)
  from damage_dealt_out_of_range [of "- 50" 2 dealt_scenario "''a''" "''b''" 40 SHOTGUN False]
    damage_dealt_out_of_range [of 800 2 dealt_scenario "''a''" "''b''" "- 40" MACHINEGUN False]
    b c v
  show ?thesis by simp
qed

text \<open>
  Claim C6 as stated fails for a negative damage amount: a hit with damage \<open>-40\<close> takes
  the attacker's shield from 15 to 9, where a hit with damage zero leaves it at 15.
\<close>

theorem negative_damage_counterexample:
  "shield_of dealt_scenario ''a'' = Some 15
   \<and> shield_of (snd (on_damage_dealt 2 dealt_scenario ''a'' ''b'' (- 40) MACHINEGUN 800 False)) ''a''
       = Some 9
   \<and> shield_of (snd (on_damage_dealt 2 dealt_scenario ''a'' ''b'' 0 MACHINEGUN 800 False)) ''a''
       = Some 15"
  by (simp add: dealt_scenario_def blood_ops blood_consts)

section \<open>Verification of the style system\<close>

lemmas score_defs =
  score_kill_def track_kill_def first_blood_def revenge_def boss_kill_def weapon_variety_def
  combo_detection_def killstreak_bonus_def

lemmas style_ops =
  process_kill_def score_defs add_points_def decay_def style_on_death_def
  get_multiplier_def style_get_player_def style_put_player_def new_PlayerStyle_def
  style_update_def style_reset_match_def StyleSystem_init_def rank_for_points_def
  ranks_reversed_def Let_def streak_bonuses_def WEAPON_VARIETY_BONUS_def py_trunc_def

lemma combos_sorted_eq: "combos_sorted = [GODLIKE, ULTRA_KILL, TRIPLE_KILL, DOUBLE_KILL]"
  by (simp add: combos_sorted_def COMBOS_def)

lemma rank_for_points_highest:
  "0 \<le> pts \<Longrightarrow> highest_rank_within (rank_for_points pts) pts"
  by (simp add: highest_rank_within_def rank_for_points_def ranks_reversed_def)

lemma first_blood_keeps:
  "acc_points a \<le> acc_points (first_blood c a) \<and> acc_player (first_blood c a) = acc_player a"
  by (simp add: first_blood_def)

lemma revenge_keeps:
  "acc_points a \<le> acc_points (revenge v a)
   \<and> points (acc_player (revenge v a)) = points (acc_player a)
   \<and> rank (acc_player (revenge v a)) = rank (acc_player a)"
  by (simp add: revenge_def)

lemma boss_kill_keeps:
  "acc_points a \<le> acc_points (boss_kill v a) \<and> acc_player (boss_kill v a) = acc_player a"
  by (simp add: boss_kill_def)

lemma weapon_variety_keeps:
  "acc_points a \<le> acc_points (weapon_variety w a)
   \<and> points (acc_player (weapon_variety w a)) = points (acc_player a)
   \<and> rank (acc_player (weapon_variety w a)) = rank (acc_player a)"
  by (simp add: weapon_variety_def Let_def WEAPON_VARIETY_BONUS_def)

lemma combo_bonus_pos: "0 \<le> combo_bonus c"
  by (cases c) simp_all

lemma combo_detection_keeps:
  "acc_points a \<le> acc_points (combo_detection now a)
   \<and> acc_player (combo_detection now a) = acc_player a"
  by (simp add: combo_detection_def combo_bonus_pos split: option.splits)

lemma killstreak_bonus_keeps:
  "acc_points a \<le> acc_points (killstreak_bonus a)
   \<and> acc_player (killstreak_bonus a) = acc_player a"
  by (auto simp: killstreak_bonus_def streak_bonuses_def split: option.splits if_splits)

lemma track_kill_keeps:
  "points (track_kill now p) = points p \<and> rank (track_kill now p) = rank p"
  by (simp add: track_kill_def Let_def)

lemma score_kill_points:
  "100 \<le> acc_points (score_kill now claimed p0 victim weapon)
   \<and> points (acc_player (score_kill now claimed p0 victim weapon)) = points p0
   \<and> rank (acc_player (score_kill now claimed p0 victim weapon)) = rank p0"
proof -
  let ?a0 = "\<lparr> acc_points = 100, acc_rtc = 0, acc_bonuses = [], acc_combo = None,
                acc_player = track_kill now p0 \<rparr>"
  let ?a1 = "first_blood claimed ?a0"
  let ?a2 = "revenge victim ?a1"
  let ?a3 = "boss_kill victim ?a2"
  let ?a4 = "weapon_variety weapon ?a3"
  let ?a5 = "combo_detection now ?a4"
  let ?a6 = "killstreak_bonus ?a5"
  have 0: "acc_points ?a0 = 100" "points (acc_player ?a0) = points p0"
    "rank (acc_player ?a0) = rank p0"
    by (simp_all add: track_kill_keeps)
  note 1 = first_blood_keeps [of ?a0 claimed]
  note 2 = revenge_keeps [of ?a1 victim]
  note 3 = boss_kill_keeps [of ?a2 victim]
  note 4 = weapon_variety_keeps [of ?a3 weapon]
  note 5 = combo_detection_keeps [of ?a4 now]
  note 6 = killstreak_bonus_keeps [of ?a5]
  have p: "100 \<le> acc_points ?a6" using 0(1) 1 2 3 4 5 6 by linarith
  have q: "points (acc_player ?a6) = points p0" using 0(2) 1 2 3 4 5 6 by simp
  have r: "rank (acc_player ?a6) = rank p0" using 0(3) 1 2 3 4 5 6 by simp
  show ?thesis unfolding score_kill_def using p q r by simp
qed

lemma player_ok_new: "player_ok (new_PlayerStyle n)"
  by (simp add: player_ok_def new_PlayerStyle_def rank_for_points_def ranks_reversed_def)

lemma style_get_player_ok:
  assumes "system_ok s" and "style_get_player s n = (p, s1)"
  shows "player_ok p \<and> system_ok s1"
  using assms
  by (auto simp: style_get_player_def system_ok_def player_ok_new list_all_dict_set
      split: option.splits dest: list_all_map_of)

lemma style_put_player_ok:
  "system_ok s \<Longrightarrow> player_ok p \<Longrightarrow> system_ok (style_put_player s n p)"
  by (simp add: style_put_player_def system_ok_def list_all_dict_set)

lemma add_points_ok:
  "0 \<le> points p \<Longrightarrow> 0 \<le> pts \<Longrightarrow> player_ok (fst (add_points p pts))"
  by (simp add: add_points_def Let_def player_ok_def)

lemma decay_ok: "player_ok p \<Longrightarrow> decay fmul p dt = Inr p' \<Longrightarrow> player_ok p'"
  by (auto simp: decay_def Let_def player_ok_def split: if_splits sum.splits)

lemma decay_all_ok:
  "list_all (\<lambda>(n, p). player_ok p) ps
     \<Longrightarrow> list_all (\<lambda>(n, p). player_ok p) (fst (decay_all fmul dt ps))"
proof (induction ps)
  case Nil
  show ?case by simp
next
  case (Cons np ps)
  obtain n p where np: "np = (n, p)" by (cases np)
  from Cons.prems have p: "player_ok p" and rest: "list_all (\<lambda>(n, p). player_ok p) ps"
    by (simp_all add: np)
  show ?case
  proof (cases "decay fmul p dt")
    case (Inl e)
    with p rest show ?thesis by (simp add: np)
  next
    case (Inr p')
    from decay_ok [OF p Inr] Cons.IH [OF rest] show ?thesis
      by (simp add: np Inr split_beta)
  qed
qed

lemma style_on_death_ok: "0 \<le> points p \<Longrightarrow> player_ok (style_on_death p)"
  by (simp add: style_on_death_def Let_def player_ok_def)


lemma get_player_fst_ok: "system_ok s \<Longrightarrow> player_ok (fst (style_get_player s n))"
  using style_get_player_ok [of s n "fst (style_get_player s n)" "snd (style_get_player s n)"]
  by simp

lemma get_player_snd_ok: "system_ok s \<Longrightarrow> system_ok (snd (style_get_player s n))"
  using style_get_player_ok [of s n "fst (style_get_player s n)" "snd (style_get_player s n)"]
  by simp

lemma player_ok_total_rtc: "player_ok p \<Longrightarrow> player_ok (p\<lparr>total_rtc := x\<rparr>)"
  by (simp add: player_ok_def)

lemma player_ok_deaths: "player_ok p \<Longrightarrow> player_ok (p\<lparr>deaths := x\<rparr>)"
  by (simp add: player_ok_def)

lemma death_reset_ok: "player_ok p \<Longrightarrow> player_ok (style_on_death (p\<lparr>last_killer := k\<rparr>))"
  by (rule style_on_death_ok) (simp add: player_ok_def)

lemma add_points_score_ok:
  assumes "player_ok p0"
  shows "player_ok (fst (add_points (acc_player (score_kill now c p0 v w))
                                    (acc_points (score_kill now c p0 v w))))"
  using score_kill_points [of now c p0 v w] assms
  by (intro add_points_ok) (simp_all add: player_ok_def)

lemma first_blood_flag_ok:
  "system_ok s \<Longrightarrow> system_ok (if \<not> first_blood_claimed s then s\<lparr>first_blood_claimed := True\<rparr> else s)"
  by (simp add: system_ok_def)

lemma process_kill_ok:
  assumes "system_ok s"
  shows "system_ok (snd (process_kill now s killer victim weapon))"
  unfolding process_kill_def Let_def split_beta snd_conv
  by (intro style_put_player_ok player_ok_deaths death_reset_ok get_player_fst_ok
      player_ok_total_rtc add_points_score_ok first_blood_flag_ok get_player_snd_ok assms)

lemma style_update_ok: "system_ok s \<Longrightarrow> system_ok (snd (style_update fmul now s))"
  by (simp add: style_update_def system_ok_def Let_def split_beta decay_all_ok)

lemma style_reset_match_ok: "system_ok s \<Longrightarrow> system_ok (style_reset_match now s)"
  by (simp add: style_reset_match_def system_ok_def)

lemma style_step_ok: "system_ok s \<Longrightarrow> system_ok (style_step fmul s x)"
  by (cases x) (simp_all add: process_kill_ok style_update_ok style_reset_match_ok)

lemma style_run_ok: "system_ok s \<Longrightarrow> system_ok (style_run fmul s xs)"
  by (induction xs arbitrary: s) (simp_all add: style_step_ok)

lemma system_ok_init: "system_ok (StyleSystem_init t0)"
  by (simp add: system_ok_def StyleSystem_init_def)

text \<open>
  Claim C3. In every state the style system reaches from its initial state by kills,
  decay updates and match resets, the points of every player are not negative and the
  player's rank is the highest configured rank whose threshold is at most the player's
  points: the rank is recomputed by the scan wherever the points change. This holds
  whatever the float product of \<^verbatim>\<open>decay\<close> rounds to, and also after an update that
  raised.
\<close>

theorem rank_is_highest_within_points:
  assumes "map_of (ss_players (style_run fmul (StyleSystem_init t0) ops)) name = Some p"
  shows "0 \<le> points p \<and> highest_rank_within (rank p) (points p)"
proof -
  have "system_ok (style_run fmul (StyleSystem_init t0) ops)"
    by (rule style_run_ok [OF system_ok_init])
  then have all: "list_all (\<lambda>(n, p). player_ok p)
                    (ss_players (style_run fmul (StyleSystem_init t0) ops))"
    by (simp add: system_ok_def)
  have ok: "player_ok p" by (rule list_all_map_of [OF all assms])
  then have "0 \<le> points p" and "rank p = rank_for_points (points p)"
    by (simp_all add: player_ok_def)
  with rank_for_points_highest [of "points p"] show ?thesis by simp
qed

text \<open>
  Claim C4. In \<^verbatim>\<open>process_kill\<close> the killer's rank is recomputed from the new point
  total before the multiplier is read: the rank reported is the one of the points before
  the kill plus the style points of the kill, the multiplier is that rank's, and the
  reward is base reward plus bonus reward, times that multiplier. In particular a killer
  at 700 points whose kill is worth 150 points (850 in total, below the 1000 of
  \<open>S_STAKING\<close>) is paid at the multiplier 2 of \<open>A_ATTACKING\<close>.
\<close>

theorem kill_reward_at_new_rank:
  "rank_after (fst (process_kill now s killer victim weapon))
     = rank_for_points (points (fst (style_get_player s killer))
                        + style_points (fst (process_kill now s killer victim weapon)))
   \<and> multiplier (fst (process_kill now s killer victim weapon))
     = RANK_multiplier (rank_after (fst (process_kill now s killer victim weapon)))
   \<and> kl_total_rtc (fst (process_kill now s killer victim weapon))
     = (base_rtc (fst (process_kill now s killer victim weapon))
        + bonus_rtc (fst (process_kill now s killer victim weapon)))
       * RANK_multiplier (rank_after (fst (process_kill now s killer victim weapon)))
   \<and> (points (fst (style_get_player s killer)) = 700
        \<and> style_points (fst (process_kill now s killer victim weapon)) = 150
      \<longrightarrow> rank_after (fst (process_kill now s killer victim weapon)) = A_ATTACKING
          \<and> kl_total_rtc (fst (process_kill now s killer victim weapon))
            = (base_rtc (fst (process_kill now s killer victim weapon))
               + bonus_rtc (fst (process_kill now s killer victim weapon))) * 2)"
proof -
  let ?p0 = "fst (style_get_player s killer)"
  let ?s2 = "snd (style_get_player (snd (style_get_player s killer)) victim)"
  let ?a = "score_kill now (first_blood_claimed ?s2) ?p0 victim weapon"
  have pts: "points (acc_player ?a) = points ?p0"
    using score_kill_points [of now "first_blood_claimed ?s2" ?p0 victim weapon] by simp
  have r1: "rank_after (fst (process_kill now s killer victim weapon))
              = rank_for_points (points ?p0 + acc_points ?a)"
    unfolding process_kill_def Let_def split_beta
    by (simp add: add_points_def Let_def pts)
  have r2: "style_points (fst (process_kill now s killer victim weapon)) = acc_points ?a"
    unfolding process_kill_def Let_def split_beta by simp
  have r3: "multiplier (fst (process_kill now s killer victim weapon))
              = RANK_multiplier (rank_for_points (points ?p0 + acc_points ?a))"
    unfolding process_kill_def Let_def split_beta
    by (simp add: add_points_def Let_def pts get_multiplier_def)
  have r4: "kl_total_rtc (fst (process_kill now s killer victim weapon))
              = (base_rtc (fst (process_kill now s killer victim weapon))
                 + bonus_rtc (fst (process_kill now s killer victim weapon)))
                * RANK_multiplier (rank_for_points (points ?p0 + acc_points ?a))"
    unfolding process_kill_def Let_def split_beta
    by (simp add: add_points_def Let_def pts get_multiplier_def)
  have r5: "rank_for_points (700 + 150) = A_ATTACKING"
    by (simp add: rank_for_points_def ranks_reversed_def)
  show ?thesis
    using r5 by (auto simp: r1 r2 r3 r4)
qed

text \<open>The scenario of the claim: a killer at 700 points scores a double kill, 100 points
  for the kill and 50 for the combo, and is paid \<open>(0.001 + 0.002) * 2\<close>.\<close>

theorem kill_reward_at_new_rank_witness:
  "points (fst (style_get_player system_700 ''a'')) = 700
   \<and> style_points (fst (process_kill 10 system_700 ''a'' ''b'' ''shotgun'')) = 150
   \<and> rank_after (fst (process_kill 10 system_700 ''a'' ''b'' ''shotgun'')) = A_ATTACKING
   \<and> kl_total_rtc (fst (process_kill 10 system_700 ''a'' ''b'' ''shotgun'')) = 6 / 1000"
proof -
  have a: "points (fst (style_get_player system_700 ''a'')) = 700"
    by (simp add: system_700_def killer_700_def style_get_player_def)
  have b: "style_points (fst (process_kill 10 system_700 ''a'' ''b'' ''shotgun'')) = 150"
    unfolding process_kill_def Let_def split_beta
    by (simp add: system_700_def killer_700_def style_ops combos_sorted_eq)
  have c: "base_rtc (fst (process_kill 10 system_700 ''a'' ''b'' ''shotgun'')) = 1 / 1000"
    unfolding process_kill_def Let_def split_beta by simp
  have d: "bonus_rtc (fst (process_kill 10 system_700 ''a'' ''b'' ''shotgun'')) = 2 / 1000"
    unfolding process_kill_def Let_def split_beta
    by (simp add: system_700_def killer_700_def style_ops combos_sorted_eq)
  from kill_reward_at_new_rank [of 10 system_700 "''a''" "''b''" "''shotgun''"] a b c d
  show ?thesis by (simp add: rank_for_points_def ranks_reversed_def)
qed

text \<open>
  Claim C5, amended. The dispatch of a kill line in the main loop ignores a kill whose
  killer equals the victim, or whose killer or victim is empty: \<^verbatim>\<open>process_kill\<close> is not
  called, the state is unchanged and no reward is emitted. Every other kill is handed to
  \<^verbatim>\<open>process_kill\<close>, which has no such guard of its own.
\<close>

theorem dispatch_ignores_self_kill:
  "(killer = victim \<or> killer = [] \<or> victim = []
      \<longrightarrow> dispatch_kill now s killer victim weapon = (None, s))
   \<and> (killer \<noteq> victim \<and> killer \<noteq> [] \<and> victim \<noteq> []
      \<longrightarrow> dispatch_kill now s killer victim weapon
          = (Some (fst (process_kill now s killer victim weapon)),
             snd (process_kill now s killer victim weapon)))"
  by (auto simp: dispatch_kill_def split_beta)

text \<open>Truncation towards zero rounds towards zero by less than one.\<close>

lemma py_trunc_bounds:
  "(0 \<le> x \<longrightarrow> x - 1 < real_of_int (py_trunc x) \<and> real_of_int (py_trunc x) \<le> x)
   \<and> (x \<le> 0 \<longrightarrow> x \<le> real_of_int (py_trunc x) \<and> real_of_int (py_trunc x) < x + 1)"
  by (simp add: py_trunc_def) linarith

text \<open>
  Claim C9, amended. For a player whose rank is above \<open>D_DORMANT\<close>, \<^verbatim>\<open>decay\<close> takes the
  float product of the rank's decay rate and \<open>dt\<close> as the machine computes it. When that
  product is a finite float \<open>x\<close>, it subtracts from the points \<open>x\<close> truncated towards zero
  to a whole number (less than one point away from \<open>x\<close>), floors the result at 0 and
  recomputes the rank by the scan over the thresholds from the highest to the lowest.
  When the product is an infinity or \<^verbatim>\<open>nan\<close>, the call raises and the player is not
  changed. A player at rank \<open>D_DORMANT\<close> is left unchanged.
\<close>

theorem decay_truncates:
  "(rank p = D_DORMANT \<longrightarrow> decay fmul p dt = Inr p)
   \<and> (rank p \<noteq> D_DORMANT \<and> fmul (RANK_decay_rate (rank p)) dt = Finite x \<longrightarrow>
        decay fmul p dt
          = Inr (p\<lparr> points := max 0 (points p - py_trunc x),
                    rank := rank_for_points (max 0 (points p - py_trunc x)) \<rparr>)
        \<and> (0 \<le> x \<longrightarrow> x - 1 < real_of_int (py_trunc x) \<and> real_of_int (py_trunc x) \<le> x)
        \<and> (x \<le> 0 \<longrightarrow> x \<le> real_of_int (py_trunc x) \<and> real_of_int (py_trunc x) < x + 1))
   \<and> (rank p \<noteq> D_DORMANT
        \<and> (fmul (RANK_decay_rate (rank p)) dt = PosInf
            \<or> fmul (RANK_decay_rate (rank p)) dt = NegInf) \<longrightarrow>
        decay fmul p dt = Inl OverflowError)
   \<and> (rank p \<noteq> D_DORMANT \<and> fmul (RANK_decay_rate (rank p)) dt = NaN \<longrightarrow>
        decay fmul p dt = Inl ValueError)"
  using py_trunc_bounds [of x]
  by (auto simp: decay_def Let_def)

text \<open>The theorem for a player at 100 points and rank \<open>C_CALCULATING\<close>, whose rate is
  10 points a second: with a quarter of a second, where the float product 2.5 is the
  exact one; with the float nearest to 0.3, where the float product is 3.0 and not the
  exact product; and with an infinite and an undefined elapsed time. And for a dormant
  player.\<close>

theorem decay_truncates_witness:
  "rank player_100 \<noteq> D_DORMANT
   \<and> exact_mul (RANK_decay_rate (rank player_100)) (Finite (1 / 4)) = Finite (5 / 2)
   \<and> decay exact_mul player_100 (Finite (1 / 4))
       = Inr (player_100\<lparr>points := 98, rank := D_DORMANT\<rparr>)
   \<and> decay (\<lambda>r d. Finite 3) player_100
         (Finite (5404319552844595 / 18014398509481984))
       = Inr (player_100\<lparr>points := 97, rank := D_DORMANT\<rparr>)
   \<and> exact_mul (RANK_decay_rate (rank player_100)) PosInf = PosInf
   \<and> decay exact_mul player_100 PosInf = Inl OverflowError
   \<and> exact_mul (RANK_decay_rate (rank player_100)) NaN = NaN
   \<and> decay exact_mul player_100 NaN = Inl ValueError
   \<and> rank (new_PlayerStyle ''b'') = D_DORMANT
   \<and> decay exact_mul (new_PlayerStyle ''b'') (Finite (1 / 4)) = Inr (new_PlayerStyle ''b'')"
proof -
  have r: "rank player_100 = C_CALCULATING" "points player_100 = 100"
    by (simp_all add: player_100_def)
  have t: "py_trunc (5 / 2) = 2" "py_trunc 3 = 3"
    by (simp_all add: py_trunc_def)
  have k: "rank_for_points 98 = D_DORMANT" "rank_for_points 97 = D_DORMANT"
    by (simp_all add: rank_for_points_def ranks_reversed_def)
  have d: "rank (new_PlayerStyle ''b'') = D_DORMANT"
    by (simp add: new_PlayerStyle_def)
  from decay_truncates [of player_100 exact_mul "Finite (1 / 4)" "5 / 2"]
    decay_truncates [of player_100 "\<lambda>r d. Finite 3"
      "Finite (5404319552844595 / 18014398509481984)" 3]
    decay_truncates [of player_100 exact_mul PosInf 0]
    decay_truncates [of player_100 exact_mul NaN 0]
    decay_truncates [of "new_PlayerStyle ''b''" exact_mul "Finite (1 / 4)" 0]
    r t k d
  show ?thesis by simp
qed

text \<open>
  Claim C9 as stated, that exactly the decay rate times \<open>dt\<close> is subtracted, fails: at
  100 points and 10 points a second, a quarter of a second takes 2 points, not 2.5.
  The float product of 10 and 0.25 is exactly 2.5, so here the product is the exact one.
\<close>

theorem decay_not_exact_counterexample:
  "rank player_100 = C_CALCULATING
   \<and> map_sum id points (decay exact_mul player_100 (Finite (1 / 4))) = Inr 98
   \<and> max 0 (real_of_int (points player_100)
             - real_of_int (RANK_decay_rate (rank player_100)) * (1 / 4)) = 975 / 10"
  by (simp add: player_100_def new_PlayerStyle_def decay_def Let_def py_trunc_def)


text \<open>The scenario history, state by state.\<close>

lemma style_step_1:
  "snd (process_kill 1 (StyleSystem_init 0) ''a'' ''b'' ''shotgun'') = system_one_kill"
  unfolding process_kill_def Let_def split_beta
  by (simp add: system_one_kill_def victim_b_def style_ops combos_sorted_eq)

lemma style_step_2: "snd (style_update exact_mul 5 system_one_kill) = system_decayed"
  by (simp add: system_one_kill_def system_decayed_def victim_b_def style_ops)

lemma style_step_3:
  "snd (process_kill 6 system_decayed ''b'' ''a'' ''vortex'') = system_final"
  unfolding process_kill_def Let_def split_beta
  by (simp add: system_decayed_def system_final_def player_a_final_def victim_b_def style_ops
      combos_sorted_eq)

lemma style_scenario_run:
  "style_run exact_mul (StyleSystem_init 0) style_scenario = system_final"
  by (simp add: style_scenario_def style_step_1 style_step_2 style_step_3)

text \<open>Claim C3 at the end of the scenario history, for the player killed last. The
  update of the history multiplies the rate 15 by 5 seconds, an exact float product.\<close>

theorem rank_is_highest_within_points_witness:
  "map_of (ss_players (style_run exact_mul (StyleSystem_init 0) style_scenario)) ''a''
     = Some player_a_final
   \<and> points player_a_final = 112 \<and> rank player_a_final = C_CALCULATING
   \<and> highest_rank_within C_CALCULATING 112"
proof -
  have m: "map_of (ss_players (style_run exact_mul (StyleSystem_init 0) style_scenario)) ''a''
             = Some player_a_final"
    by (simp add: style_scenario_run system_final_def)
  from rank_is_highest_within_points [OF m] m show ?thesis
    by (simp add: player_a_final_def)
qed

text \<open>
  Claim C5 as stated, for every call of \<^verbatim>\<open>process_kill\<close> with the killer as the victim,
  fails: the call counts a kill and a death for the player, pays the reward, and halves
  the points.
\<close>

theorem self_kill_counterexample:
  "map_option (\<lambda>p. (total_kills p, deaths p, points p, total_rtc p))
     (map_of (ss_players system_one_kill) ''a'') = Some (1, 0, 300, 9 / 1000)
   \<and> map_option (\<lambda>p. (total_kills p, deaths p, points p, total_rtc p))
       (map_of (ss_players (snd (process_kill 2 system_one_kill ''a'' ''a'' ''shotgun''))) ''a'')
     = Some (2, 1, 225, 27 / 2000)
   \<and> kl_total_rtc (fst (process_kill 2 system_one_kill ''a'' ''a'' ''shotgun'')) = 9 / 2000"
  unfolding process_kill_def Let_def split_beta
  by (simp add: system_one_kill_def victim_b_def style_ops combos_sorted_eq)

text \<open>The dispatch at a self kill and at a kill of another player.\<close>

theorem dispatch_ignores_self_kill_witness:
  "dispatch_kill 2 system_one_kill ''a'' ''a'' ''shotgun'' = (None, system_one_kill)
   \<and> dispatch_kill 2 system_one_kill ''a'' ''b'' ''shotgun''
     = (Some (fst (process_kill 2 system_one_kill ''a'' ''b'' ''shotgun'')),
        snd (process_kill 2 system_one_kill ''a'' ''b'' ''shotgun''))"
  using dispatch_ignores_self_kill [of "''a''" "''a''" 2 system_one_kill "''shotgun''"]
    dispatch_ignores_self_kill [of "''a''" "''b''" 2 system_one_kill "''shotgun''"]
  by simp

section \<open>Verification of the 51% attack mode\<close>




lemma cap_map_team: "cap (map_team t f s) = cap s"
  by (cases t) (simp_all add: cap_def)

lemma cap_players: "cap (s\<lparr>players := ps\<rparr>) = cap s"
  by (simp add: cap_def)








lemma cap_mine: "cap (fst (mine ar dt s)) = cap s"
  by (simp add: mine_def Let_def split_beta cap_players cap_map_team split: option.splits)

lemma cap_phase: "cap (fst (phase_transitions ar mt s)) = cap s"
  by (simp add: phase_transitions_def Let_def split_beta cap_def)














text \<open>The definitions with their local bindings unfolded, for evaluation on concrete
  states.\<close>

lemmas mode_unf =
  mode_update_def [unfolded Let_def split_beta]
  end_match_def [unfolded Let_def split_beta]
  occupancy_def [unfolded Let_def split_beta]
  process_capture_def [unfolded Let_def split_beta]
  mine_def [unfolded Let_def split_beta]
  phase_transitions_def [unfolded Let_def split_beta]
  settle_team_def [unfolded Let_def split_beta]
  determine_winner_def [unfolded Let_def split_beta]
  start_match_def [unfolded Let_def split_beta]
  add_player_def [unfolded Let_def split_beta]
  get_status_def [unfolded Let_def split_beta]
  player_enter_point_def player_leave_point_def apply_bonus_penalty_def
  team_summary_of_def team_status_of_def get_control_percent_def log_event_def
  get_team_name_def str_team_def team_key_def set_add_def set_discard_def f_sum_def
  new_TeamState_def new_PlayerStats_def FiftyOneAttackMode_init_def exact_arith_def

lemmas mode_consts =
  MATCH_DURATION_def CONTROL_POINT_CAPTURE_TIME_def RTC_MINING_RATE_def ATTACK_THRESHOLD_def
  LOSER_PENALTY_def

lemma team_obj_map_team:
  "team_obj (map_team t f s) t' = (if t' = t then f (team_obj s t) else team_obj s t')"
  by (cases t; cases t') simp_all

lemma team_obj_log_event: "team_obj (log_event ar now d s) t = team_obj s t"
  by (cases t) (simp_all add: log_event_def)

lemma team_obj_players: "team_obj (s\<lparr>players := ps\<rparr>) t = team_obj s t"
  by (cases t) simp_all

lemma team_obj_phase: "team_obj (fst (phase_transitions ar mt s)) t = team_obj s t"
  by (cases t) (simp_all add: phase_transitions_def Let_def split_beta)

lemma other_team_neq: "other_team w \<noteq> w"
  by (cases w) simp_all

lemma apply_bonus_penalty_rtc:
  "ts_rtc_mined (team_obj (apply_bonus_penalty ar (Some w) s) w)
     = d_add ar (ts_rtc_mined (team_obj s w)) (winner_bonus_pool s)"
  "ts_rtc_mined (team_obj (apply_bonus_penalty ar (Some w) s) (other_team w))
     = d_mul ar (ts_rtc_mined (team_obj s (other_team w))) (d_of_float ar LOSER_PENALTY)"
  "apply_bonus_penalty ar None s = s"
  using other_team_neq [of w]
  by (auto simp: apply_bonus_penalty_def team_obj_map_team)

lemma end_match_team:
  "team_obj (snd (end_match ar now s)) t
     = team_obj (apply_bonus_penalty ar (fst (determine_winner ar now s)) s) t"
  by (simp add: end_match_def Let_def split_beta team_obj_log_event team_obj_players)








lemma process_capture_rtc:
  "ts_rtc_mined (team_obj (fst (process_capture ar now team dt s)) t)
     = ts_rtc_mined (team_obj s t)"
  by (cases t; cases team)
     (simp_all add: process_capture_def Let_def split_beta log_event_def)

lemma occupancy_rtc:
  "ts_rtc_mined (team_obj (fst (occupancy ar now dt s)) t) = ts_rtc_mined (team_obj s t)"
  using process_capture_rtc [of ar now Team1 dt s t] process_capture_rtc [of ar now Team2 dt s t]
  by (cases t) (simp_all add: occupancy_def Let_def split_beta)

lemma mine_rtc:
  "ts_rtc_mined (team_obj (fst (mine ar dt s)) t)
     = (if controlling_team s = Some t
        then d_add ar (ts_rtc_mined (team_obj s t))
               (d_mul ar RTC_MINING_RATE (d_of_float ar dt))
        else ts_rtc_mined (team_obj s t))"
  by (cases t; cases "controlling_team s"; cases "the (controlling_team s)")
     (simp_all add: mine_def Let_def split_beta)

lemma cap_controlling: "cap s' = cap s \<Longrightarrow> controlling_team s' = controlling_team s"
  by (simp add: cap_def)

text \<open>
  Claim C8, amended. The tick operation \<^verbatim>\<open>update\<close> performs the settlement itself as
  soon as the match time, the float difference of the clock and the match start, has
  reached the match duration: the call is then \<^verbatim>\<open>end_match\<close>, it returns the result of
  the settlement, and with a winner it adds the bonus pool to the winner's mined total
  and multiplies the loser's by the penalty. Before that, the tick never settles: it
  does not return a settlement, and it leaves the mined total of a team as it was or
  adds the mined amount of the tick, rate times \<open>dt\<close>, to it; the total of a team that
  does not control the point after the tick is unchanged, and the total of the team
  that controls the point after a tick that returned has grown by the mined amount.
\<close>

theorem update_settles_on_expiry:
  "(match_duration s \<le> f_sub ar now (match_start s) \<longrightarrow>
      mode_update ar now dt s
        = (Returned (Ended (fst (end_match ar now s))), snd (end_match ar now s))
      \<and> (fst (determine_winner ar now s) = Some w \<longrightarrow>
           ts_rtc_mined (team_obj (snd (mode_update ar now dt s)) w)
             = d_add ar (ts_rtc_mined (team_obj s w)) (winner_bonus_pool s)
           \<and> ts_rtc_mined (team_obj (snd (mode_update ar now dt s)) (other_team w))
             = d_mul ar (ts_rtc_mined (team_obj s (other_team w)))
                 (d_of_float ar LOSER_PENALTY)))
   \<and> (f_sub ar now (match_start s) < match_duration s \<longrightarrow>
        fst (mode_update ar now dt s) \<noteq> Returned (Ended r)
        \<and> (ts_rtc_mined (team_obj (snd (mode_update ar now dt s)) t)
             = ts_rtc_mined (team_obj s t)
           \<or> ts_rtc_mined (team_obj (snd (mode_update ar now dt s)) t)
             = d_add ar (ts_rtc_mined (team_obj s t))
                 (d_mul ar RTC_MINING_RATE (d_of_float ar dt)))
        \<and> (\<not> controls (snd (mode_update ar now dt s)) t \<longrightarrow>
             ts_rtc_mined (team_obj (snd (mode_update ar now dt s)) t)
               = ts_rtc_mined (team_obj s t))
        \<and> (fst (mode_update ar now dt s) = Returned (Tick r')
             \<and> controls (snd (mode_update ar now dt s)) t \<longrightarrow>
             ts_rtc_mined (team_obj (snd (mode_update ar now dt s)) t)
               = d_add ar (ts_rtc_mined (team_obj s t))
                   (d_mul ar RTC_MINING_RATE (d_of_float ar dt))))"
proof (intro conjI impI)
  assume e: "match_duration s \<le> f_sub ar now (match_start s)"
  then show u: "mode_update ar now dt s
        = (Returned (Ended (fst (end_match ar now s))), snd (end_match ar now s))"
    by (simp add: mode_update_def Let_def split_beta)
  assume w: "fst (determine_winner ar now s) = Some w"
  show "ts_rtc_mined (team_obj (snd (mode_update ar now dt s)) w)
          = d_add ar (ts_rtc_mined (team_obj s w)) (winner_bonus_pool s)"
    by (simp add: u end_match_team w apply_bonus_penalty_rtc)
  show "ts_rtc_mined (team_obj (snd (mode_update ar now dt s)) (other_team w))
          = d_mul ar (ts_rtc_mined (team_obj s (other_team w))) (d_of_float ar LOSER_PENALTY)"
    by (simp add: u end_match_team w apply_bonus_penalty_rtc)
next
  assume n: "f_sub ar now (match_start s) < match_duration s"
  let ?o = "fst (occupancy ar now dt s)"
  let ?m = "fst (mine ar dt ?o)"
  let ?p = "fst (phase_transitions ar (f_sub ar now (match_start s)) ?m)"
  have cases: "snd (mode_update ar now dt s) = ?o \<or> snd (mode_update ar now dt s) = ?m
                 \<or> snd (mode_update ar now dt s) = ?p"
    using n by (simp add: mode_update_def Let_def split_beta)
  have ro: "ts_rtc_mined (team_obj ?o t) = ts_rtc_mined (team_obj s t)"
    by (rule occupancy_rtc)
  have rm: "ts_rtc_mined (team_obj ?m t)
              = (if controlling_team ?o = Some t
                 then d_add ar (ts_rtc_mined (team_obj s t))
                        (d_mul ar RTC_MINING_RATE (d_of_float ar dt))
                 else ts_rtc_mined (team_obj s t))"
    by (simp add: mine_rtc ro)
  have rp: "ts_rtc_mined (team_obj ?p t) = ts_rtc_mined (team_obj ?m t)"
    by (simp add: team_obj_phase)
  have cm: "controlling_team ?m = controlling_team ?o"
    by (rule cap_controlling [OF cap_mine])
  have cp: "controlling_team ?p = controlling_team ?o"
    using cap_controlling [OF cap_phase, of ar "f_sub ar now (match_start s)" ?m] cm by simp
  show "fst (mode_update ar now dt s) \<noteq> Returned (Ended r)"
    using n by (simp add: mode_update_def Let_def split_beta)
  show "ts_rtc_mined (team_obj (snd (mode_update ar now dt s)) t)
          = ts_rtc_mined (team_obj s t)
        \<or> ts_rtc_mined (team_obj (snd (mode_update ar now dt s)) t)
          = d_add ar (ts_rtc_mined (team_obj s t))
              (d_mul ar RTC_MINING_RATE (d_of_float ar dt))"
    using cases ro rm rp by (auto split: if_splits)
  show "ts_rtc_mined (team_obj (snd (mode_update ar now dt s)) t)
          = ts_rtc_mined (team_obj s t)"
    if "\<not> controls (snd (mode_update ar now dt s)) t"
    using that cases ro rm rp cm cp by (auto simp: controls_def split: if_splits)
  show "ts_rtc_mined (team_obj (snd (mode_update ar now dt s)) t)
          = d_add ar (ts_rtc_mined (team_obj s t))
              (d_mul ar RTC_MINING_RATE (d_of_float ar dt))"
    if r: "fst (mode_update ar now dt s) = Returned (Tick r')
           \<and> controls (snd (mode_update ar now dt s)) t"
  proof -
    from r n have "snd (mode_update ar now dt s) = ?p"
      by (simp add: mode_update_def Let_def split_beta split: if_splits)
    with r have "controlling_team ?o = Some t" and "snd (mode_update ar now dt s) = ?p"
      by (simp_all add: controls_def cp)
    then show ?thesis by (simp add: rp rm)
  qed
qed





lemma settle_winner: "determine_winner exact_arith 1600 settle_state = (Some Team1, ATTACK_51)"
  by (simp add: determine_winner_def settle_state_def Let_def)

lemma settle_expired:
  "match_duration settle_state \<le> f_sub exact_arith 1600 (match_start settle_state)"
  by (simp add: settle_state_def exact_arith_def MATCH_DURATION_def)

lemma settle_running:
  "f_sub exact_arith 1100 (match_start settle_state) < match_duration settle_state"
  by (simp add: settle_state_def exact_arith_def MATCH_DURATION_def)

lemma settle_first:
  "ts_rtc_mined (team1 (snd (end_match exact_arith 1600 settle_state))) = 806 / 1000"
  "ts_rtc_mined (team2 (snd (end_match exact_arith 1600 settle_state))) = 50 / 1000"
  using end_match_team [of exact_arith 1600 settle_state Team1]
    end_match_team [of exact_arith 1600 settle_state Team2]
  by (simp_all add: settle_winner apply_bonus_penalty_def)
     (simp_all add: settle_state_def exact_arith_def LOSER_PENALTY_def)

text \<open>
  Claim C8 as stated, that the tick never settles, fails: in a match of 600 seconds
  started at 1000, the tick at 1600 returns the result of \<^verbatim>\<open>end_match\<close>, a victory by
  51% attack, and takes the mined totals from 0.306 and 0.1 to 0.806 and 0.05.
\<close>

theorem update_settles_counterexample:
  "ts_rtc_mined (team1 settle_state) = 306 / 1000
   \<and> ts_rtc_mined (team2 settle_state) = 100 / 1000
   \<and> fst (mode_update exact_arith 1600 1 settle_state)
       = Returned (Ended (fst (end_match exact_arith 1600 settle_state)))
   \<and> victory_type (fst (end_match exact_arith 1600 settle_state)) = ATTACK_51
   \<and> ts_rtc_mined (team1 (snd (mode_update exact_arith 1600 1 settle_state))) = 806 / 1000
   \<and> ts_rtc_mined (team2 (snd (mode_update exact_arith 1600 1 settle_state))) = 50 / 1000"
proof -
  have u: "mode_update exact_arith 1600 1 settle_state
             = (Returned (Ended (fst (end_match exact_arith 1600 settle_state))),
                snd (end_match exact_arith 1600 settle_state))"
    using settle_expired by (simp add: mode_update_def Let_def split_beta)
  have v: "victory_type (fst (end_match exact_arith 1600 settle_state)) = ATTACK_51"
    by (simp add: end_match_def Let_def split_beta settle_winner)
  show ?thesis
    by (simp add: u v settle_first) (simp add: settle_state_def)
qed

text \<open>Claim C8 at the tick at 1600, where the match time has reached the duration and
  the first team wins, and at a tick at 1100 of two seconds, where the first team
  controls and mines and the second does not.\<close>

theorem update_settles_on_expiry_witness:
  "match_duration settle_state \<le> f_sub exact_arith 1600 (match_start settle_state)
   \<and> fst (determine_winner exact_arith 1600 settle_state) = Some Team1
   \<and> ts_rtc_mined (team_obj (snd (mode_update exact_arith 1600 2 settle_state)) Team1)
       = d_add exact_arith (ts_rtc_mined (team_obj settle_state Team1))
           (winner_bonus_pool settle_state)
   \<and> f_sub exact_arith 1100 (match_start settle_state) < match_duration settle_state
   \<and> \<not> controls (snd (mode_update exact_arith 1100 2 settle_state)) Team2
   \<and> ts_rtc_mined (team_obj (snd (mode_update exact_arith 1100 2 settle_state)) Team2)
       = ts_rtc_mined (team_obj settle_state Team2)
   \<and> ts_rtc_mined (team_obj (snd (mode_update exact_arith 1100 2 settle_state)) Team1)
       = 308 / 1000"
proof -
  have c: "\<not> controls (snd (mode_update exact_arith 1100 2 settle_state)) Team2"
    by (simp add: controls_def settle_state_def mode_unf mode_consts)
  have m: "ts_rtc_mined (team_obj (snd (mode_update exact_arith 1100 2 settle_state)) Team1)
             = 308 / 1000"
    by (simp add: settle_state_def mode_unf mode_consts)
  have w: "fst (determine_winner exact_arith 1600 settle_state) = Some Team1"
    by (simp add: settle_winner)
  from update_settles_on_expiry [of settle_state exact_arith 1600 2 Team1] settle_expired w
  have e: "ts_rtc_mined (team_obj (snd (mode_update exact_arith 1600 2 settle_state)) Team1)
             = d_add exact_arith (ts_rtc_mined (team_obj settle_state Team1))
                 (winner_bonus_pool settle_state)"
    by blast
  from update_settles_on_expiry [of settle_state exact_arith 1100 2 _ _ Team2] settle_running c
  have r: "ts_rtc_mined (team_obj (snd (mode_update exact_arith 1100 2 settle_state)) Team2)
             = ts_rtc_mined (team_obj settle_state Team2)"
    by blast
  from settle_expired w e settle_running c r m show ?thesis by blast
qed




end
